theory Spec2Isabelle
  imports Complex_Main "HOL-Library.Sublist"
begin

section \<open>Values handled by the extractor\<close>

text \<open>
  The script \<^verbatim>\<open>shopee.py\<close> works on what \<^verbatim>\<open>response.json()\<close> returns: Python values
  built from \<^verbatim>\<open>None\<close>, booleans, integers, floats, strings, lists and dictionaries.
  A dictionary is an association list in insertion order whose keys are distinct (the
  JSON decoder has already resolved repeated keys). A string is the list of its
  characters, for the characters that \<^typ>\<open>char\<close> has. A float is the rational number it
  denotes; the decoder's non-standard \<^verbatim>\<open>NaN\<close> and \<^verbatim>\<open>Infinity\<close> are left out, and the
  rounding of float arithmetic is not modelled (no result of the script depends on it).
\<close>

datatype json =
    JNull
  | JBool bool
  | JInt int
  | JFloat rat
  | JStr string
  | JList "json list"
  | JObj "(string \<times> json) list"

type_synonym pydict = "(string \<times> json) list"

text \<open>The exceptions the script can meet; every one of them derives from \<^verbatim>\<open>Exception\<close>.\<close>

datatype py_error =
    TypeError
  | KeyError
  | IndexError
  | AttributeError
  | JSONDecodeError
  | RequestException

definition bind_exc :: "'e + 'a \<Rightarrow> ('a \<Rightarrow> 'e + 'b) \<Rightarrow> 'e + 'b" where
  "bind_exc m f = (case m of Inl e \<Rightarrow> Inl e | Inr x \<Rightarrow> f x)"

subsection \<open>The Python operations the script applies to decoded values\<close>

text \<open>\<^verbatim>\<open>key in x\<close> for a string \<^verbatim>\<open>key\<close>: a key test on a dictionary, an element test on a
  list, a substring test on a string, and a \<^verbatim>\<open>TypeError\<close> on anything else.\<close>

fun py_in :: "string \<Rightarrow> json \<Rightarrow> py_error + bool" where
  "py_in k (JObj kvs) = Inr (k \<in> set (map fst kvs))"
| "py_in k (JList xs) = Inr (JStr k \<in> set xs)"
| "py_in k (JStr s) = Inr (sublist k s)"
| "py_in k _ = Inl TypeError"

text \<open>\<^verbatim>\<open>x[key]\<close> for a string \<^verbatim>\<open>key\<close>: only a dictionary accepts it.\<close>

fun py_getitem :: "json \<Rightarrow> string \<Rightarrow> py_error + json" where
  "py_getitem (JObj kvs) k = (case map_of kvs k of None \<Rightarrow> Inl KeyError | Some v \<Rightarrow> Inr v)"
| "py_getitem _ k = Inl TypeError"

text \<open>\<^verbatim>\<open>x[i]\<close> for an integer \<^verbatim>\<open>i \<ge> 0\<close>. The keys of a decoded dictionary are strings,
  so an integer is never one of them.\<close>

fun py_index :: "json \<Rightarrow> nat \<Rightarrow> py_error + json" where
  "py_index (JList xs) i = (if i < length xs then Inr (xs ! i) else Inl IndexError)"
| "py_index (JStr s) i = (if i < length s then Inr (JStr [s ! i]) else Inl IndexError)"
| "py_index (JObj kvs) i = Inl KeyError"
| "py_index _ i = Inl TypeError"

text \<open>\<^verbatim>\<open>x.get(key, default)\<close>: only a dictionary has the method.\<close>

fun py_get :: "json \<Rightarrow> string \<Rightarrow> json \<Rightarrow> py_error + json" where
  "py_get (JObj kvs) k d = Inr (case map_of kvs k of None \<Rightarrow> d | Some v \<Rightarrow> v)"
| "py_get _ k d = Inl AttributeError"

fun py_len :: "json \<Rightarrow> py_error + nat" where
  "py_len (JList xs) = Inr (length xs)"
| "py_len (JStr s) = Inr (length s)"
| "py_len (JObj kvs) = Inr (length kvs)"
| "py_len _ = Inl TypeError"

text \<open>The truth value of a value in a condition.\<close>

fun py_bool :: "json \<Rightarrow> bool" where
  "py_bool JNull = False"
| "py_bool (JBool b) = b"
| "py_bool (JInt i) = (i \<noteq> 0)"
| "py_bool (JFloat f) = (f \<noteq> 0)"
| "py_bool (JStr s) = (s \<noteq> [])"
| "py_bool (JList xs) = (xs \<noteq> [])"
| "py_bool (JObj kvs) = (kvs \<noteq> [])"

text \<open>The elements a \<^verbatim>\<open>for\<close> loop visits: a dictionary yields its keys, a string its
  characters.\<close>

fun py_iter :: "json \<Rightarrow> py_error + json list" where
  "py_iter (JList xs) = Inr xs"
| "py_iter (JStr s) = Inr (map (\<lambda>c. JStr [c]) s)"
| "py_iter (JObj kvs) = Inr (map (\<lambda>kv. JStr (fst kv)) kvs)"
| "py_iter _ = Inl TypeError"

section \<open>The Category Flattener\<close>

text \<open>
  Lines 142 to 159 of \<^verbatim>\<open>extrair_categorias_via_api\<close>. The five level fields are five
  copies of one expression,
  \<^verbatim>\<open>path[i]["category_name"] if len(path) > i else ""\<close>, which is \<open>nivel path i\<close>.
\<close>

definition nivel :: "json \<Rightarrow> nat \<Rightarrow> py_error + json" where
  "nivel path i =
     bind_exc (py_len path) (\<lambda>n.
       if n > i then bind_exc (py_index path i) (\<lambda>no. py_getitem no ''category_name'')
       else Inr (JStr ''''))"

text \<open>\<^verbatim>\<open>imagens[0] if imagens else ""\<close>\<close>

definition primeira_imagem :: "json \<Rightarrow> py_error + json" where
  "primeira_imagem imagens = (if py_bool imagens then py_index imagens 0 else Inr (JStr ''''))"

definition flatten_item :: "json \<Rightarrow> py_error + pydict" where
  "flatten_item item =
     bind_exc (py_get item ''path'' (JList [])) (\<lambda>path.
     bind_exc (nivel path 0) (\<lambda>categoria.
     bind_exc (nivel path 1) (\<lambda>subcategoria.
     bind_exc (nivel path 2) (\<lambda>terceiro_nivel.
     bind_exc (nivel path 3) (\<lambda>quarto_nivel.
     bind_exc (nivel path 4) (\<lambda>quinto_nivel.
     bind_exc (py_get item ''category_id'' (JStr '''')) (\<lambda>id_categoria.
     bind_exc (py_get item ''images'' (JList [])) (\<lambda>imagens.
     bind_exc (primeira_imagem imagens) (\<lambda>imagem_categoria.
       Inr [(''categoria'', categoria),
            (''subcategoria'', subcategoria),
            (''3_nivel_categoria'', terceiro_nivel),
            (''4_nivel_categoria'', quarto_nivel),
            (''5_nivel_categoria'', quinto_nivel),
            (''id_categoria'', id_categoria),
            (''imagem_categoria'', imagem_categoria)])))))))))"

definition colunas_esperadas :: "string list" where
  "colunas_esperadas =
     [''categoria'', ''subcategoria'', ''3_nivel_categoria'',
      ''4_nivel_categoria'', ''5_nivel_categoria'',
      ''id_categoria'', ''imagem_categoria'']"

section \<open>The world outside the script\<close>

text \<open>
  A call of \<^verbatim>\<open>requests.get\<close> either raises or returns a response with a status code
  and a payload. For the landing page the payload is the session's cookies; for the API
  it is the body as \<^verbatim>\<open>response.json()\<close> decodes it, \<open>None\<close> when the body is not JSON
  (the decoder raises). During one run every page number is requested at most once, so
  the API is a function of the cookies sent and of the \<^verbatim>\<open>page\<close> parameter (the \<^verbatim>\<open>size\<close>
  parameter is always 100). What \<^verbatim>\<open>pandas\<close>, the file system and the database do
  with a non-empty record list is outside the script: for each sink the environment
  says which exception, if any, the statements after the emptiness test raise.
  The pause \<^verbatim>\<open>time.sleep(0.5)\<close> after each page has no effect on the values computed
  and is left out.
\<close>

datatype 'a resposta = Falha_conexao | Resposta int 'a

type_synonym cookies = "(string \<times> string) list"

record ambiente =
  pagina_inicial :: "cookies resposta"
  api :: "cookies \<Rightarrow> int \<Rightarrow> json option resposta"
  gravar_csv :: "pydict list \<Rightarrow> py_error option"
  gravar_excel :: "pydict list \<Rightarrow> py_error option"
  gravar_postgres :: "pydict list \<Rightarrow> py_error option"

subsection \<open>The log\<close>

datatype nivel_log = INFO | WARNING | ERROR

datatype mensagem =
    Cookies_obtidos
  | Falha_cookies int
  | Erro_cookies py_error
  | Erro_api_status int
  | Estrutura_inesperada json
  | Total_itens json
  | Total_paginas json
  | Erro_pagina_status int int
  | Estrutura_inesperada_pagina int
  | Erro_item py_error
  | Total_extraidas nat
  | Erro_nao_tratado py_error

type_synonym registro = "(nivel_log \<times> mensagem) list"

text \<open>The state of a run of the extraction: the accumulator \<^verbatim>\<open>todas_categorias\<close>, the
  lines logged so far and the \<^verbatim>\<open>page\<close> parameters of the API requests issued so far.\<close>

record estado =
  todas_categorias :: "pydict list"
  logs :: registro
  requisicoes :: "int list"

definition logar :: "nivel_log \<Rightarrow> mensagem \<Rightarrow> estado \<Rightarrow> estado" where
  "logar n m st = st\<lparr>logs := logs st @ [(n, m)]\<rparr>"

definition requisitar :: "int \<Rightarrow> estado \<Rightarrow> estado" where
  "requisitar pagina st = st\<lparr>requisicoes := requisicoes st @ [pagina]\<rparr>"

section \<open>The Session Bootstrapper\<close>

definition obter_cookie_sessao :: "cookies resposta \<Rightarrow> cookies \<times> registro" where
  "obter_cookie_sessao r =
     (case r of
        Falha_conexao \<Rightarrow> ([], [(ERROR, Erro_cookies RequestException)])
      | Resposta status_code cs \<Rightarrow>
          if status_code = 200 then (cs, [(INFO, Cookies_obtidos)])
          else ([], [(WARNING, Falha_cookies status_code)]))"

section \<open>The Paginated Fetcher\<close>

definition tamanho_pagina :: int where
  "tamanho_pagina = 100"

text \<open>The condition of lines 104 and 133,
  \<^verbatim>\<open>"data" not in data or "global_cats" not in data["data"]\<close>, with its short circuit.\<close>

definition estrutura_inesperada :: "json \<Rightarrow> py_error + bool" where
  "estrutura_inesperada data =
     bind_exc (py_in ''data'' data) (\<lambda>tem_data.
       if \<not> tem_data then Inr True
       else bind_exc (py_getitem data ''data'') (\<lambda>d.
            bind_exc (py_in ''global_cats'' d) (\<lambda>tem_cats. Inr (\<not> tem_cats))))"

text \<open>Line 110, \<^verbatim>\<open>(total_itens + tamanho_pagina - 1) // tamanho_pagina\<close>. A boolean counts
  as 0 or 1, a float gives a float, anything else cannot be added to an integer.\<close>

fun calcular_total_paginas :: "json \<Rightarrow> py_error + json" where
  "calcular_total_paginas (JInt n) = Inr (JInt ((n + tamanho_pagina - 1) div tamanho_pagina))"
| "calcular_total_paginas (JBool b) =
     Inr (JInt (((if b then 1 else 0) + tamanho_pagina - 1) div tamanho_pagina))"
| "calcular_total_paginas (JFloat f) =
     Inr (JFloat (of_int \<lfloor>(f + of_int tamanho_pagina - 1) / of_int tamanho_pagina\<rfloor>))"
| "calcular_total_paginas _ = Inl TypeError"

text \<open>\<^verbatim>\<open>range(1, total_paginas + 1)\<close>: the pages of the loop; \<^verbatim>\<open>range\<close> refuses a float.\<close>

fun paginas_a_processar :: "json \<Rightarrow> py_error + int list" where
  "paginas_a_processar (JInt n) = Inr [1..n]"
| "paginas_a_processar _ = Inl TypeError"

text \<open>The loop of lines 140 to 163 over the items of one page: a record is appended, or
  the exception of the item is logged and the loop goes on.\<close>

fun processar_itens :: "json list \<Rightarrow> estado \<Rightarrow> estado" where
  "processar_itens [] st = st"
| "processar_itens (item # itens) st =
     processar_itens itens
       (case flatten_item item of
          Inr categoria_item \<Rightarrow>
            st\<lparr>todas_categorias := todas_categorias st @ [categoria_item]\<rparr>
        | Inl e \<Rightarrow> logar ERROR (Erro_item e) st)"

text \<open>Lines 138 to 163: \<^verbatim>\<open>itens = data["data"]["global_cats"]\<close> and the loop over them.
  An exception here leaves the loop over the pages.\<close>

definition processar_dados :: "json \<Rightarrow> estado \<Rightarrow> (py_error + json) \<times> estado" where
  "processar_dados data st =
     (case bind_exc (py_getitem data ''data'') (\<lambda>d.
           bind_exc (py_getitem d ''global_cats'') py_iter) of
        Inl e \<Rightarrow> (Inl e, st)
      | Inr itens \<Rightarrow> (Inr data, processar_itens itens st))"

text \<open>One turn of the loop of line 116, for page \<open>pagina\<close>, with the value of the
  variable \<^verbatim>\<open>data\<close> on entry. The result is the exception that leaves the loop, or the
  value of \<^verbatim>\<open>data\<close> at the end of the turn (a \<^verbatim>\<open>continue\<close> ends the turn early).\<close>

definition processar_pagina ::
  "(int \<Rightarrow> json option resposta) \<Rightarrow> int \<Rightarrow> json \<Rightarrow> estado \<Rightarrow> (py_error + json) \<times> estado" where
  "processar_pagina get pagina data st =
     (if pagina > 1 then
        (let st1 = requisitar pagina st in
         case get pagina of
           Falha_conexao \<Rightarrow> (Inl RequestException, st1)
         | Resposta status_code corpo \<Rightarrow>
             if status_code \<noteq> 200 then
               (Inr data, logar ERROR (Erro_pagina_status pagina status_code) st1)
             else
               (case corpo of
                  None \<Rightarrow> (Inl JSONDecodeError, st1)
                | Some data' \<Rightarrow>
                    (case estrutura_inesperada data' of
                       Inl e \<Rightarrow> (Inl e, st1)
                     | Inr True \<Rightarrow>
                         (Inr data', logar ERROR (Estrutura_inesperada_pagina pagina) st1)
                     | Inr False \<Rightarrow> processar_dados data' st1)))
      else processar_dados data st)"

fun processar_paginas ::
  "(int \<Rightarrow> json option resposta) \<Rightarrow> int list \<Rightarrow> json \<Rightarrow> estado \<Rightarrow> py_error option \<times> estado" where
  "processar_paginas get [] data st = (None, st)"
| "processar_paginas get (pagina # paginas) data st =
     (case processar_pagina get pagina data st of
        (Inl e, st') \<Rightarrow> (Some e, st')
      | (Inr data', st') \<Rightarrow> processar_paginas get paginas data' st')"

text \<open>The \<^verbatim>\<open>try\<close> block of lines 84 to 168: the exception that reaches the handler of
  line 170, or the list returned.\<close>

definition extrair_corpo ::
  "(int \<Rightarrow> json option resposta) \<Rightarrow> estado \<Rightarrow> (py_error + pydict list) \<times> estado" where
  "extrair_corpo get st =
     (let st1 = requisitar 1 st in
      case get 1 of
        Falha_conexao \<Rightarrow> (Inl RequestException, st1)
      | Resposta status_code corpo \<Rightarrow>
          if status_code \<noteq> 200 then (Inr [], logar ERROR (Erro_api_status status_code) st1)
          else
            (case corpo of
               None \<Rightarrow> (Inl JSONDecodeError, st1)
             | Some data \<Rightarrow>
                 (case estrutura_inesperada data of
                    Inl e \<Rightarrow> (Inl e, st1)
                  | Inr True \<Rightarrow> (Inr [], logar ERROR (Estrutura_inesperada data) st1)
                  | Inr False \<Rightarrow>
                      (case bind_exc (py_getitem data ''data'') (\<lambda>d.
                              py_get d ''total'' (JInt 0)) of
                         Inl e \<Rightarrow> (Inl e, st1)
                       | Inr total_itens \<Rightarrow>
                           (case calcular_total_paginas total_itens of
                              Inl e \<Rightarrow> (Inl e, st1)
                            | Inr total_paginas \<Rightarrow>
                                (let st2 = logar INFO (Total_paginas total_paginas)
                                             (logar INFO (Total_itens total_itens) st1) in
                                 case paginas_a_processar total_paginas of
                                   Inl e \<Rightarrow> (Inl e, st2)
                                 | Inr paginas \<Rightarrow>
                                     (case processar_paginas get paginas data st2 of
                                        (Some e, st3) \<Rightarrow> (Inl e, st3)
                                      | (None, st3) \<Rightarrow>
                                          (Inr (todas_categorias st3),
                                           logar INFO
                                             (Total_extraidas (length (todas_categorias st3)))
                                             st3))))))))"

definition estado_inicial :: estado where
  "estado_inicial = \<lparr>todas_categorias = [], logs = [], requisicoes = []\<rparr>"

text \<open>The function up to the handler of line 170: the bootstrap, then the \<^verbatim>\<open>try\<close>
  block with the cookies obtained.\<close>

definition api_da_sessao :: "ambiente \<Rightarrow> int \<Rightarrow> json option resposta" where
  "api_da_sessao amb = api amb (fst (obter_cookie_sessao (pagina_inicial amb)))"

definition extrair_try :: "ambiente \<Rightarrow> (py_error + pydict list) \<times> estado" where
  "extrair_try amb =
     extrair_corpo (api_da_sessao amb)
       (estado_inicial\<lparr>logs := snd (obter_cookie_sessao (pagina_inicial amb))\<rparr>)"

text \<open>The whole function: the list returned and the final state. The handler of line
  170 returns the accumulator as it is when the exception arrives.\<close>

definition extrair_categorias_via_api :: "ambiente \<Rightarrow> pydict list \<times> estado" where
  "extrair_categorias_via_api amb =
     (case extrair_try amb of
        (Inr categorias, st) \<Rightarrow> (categorias, st)
      | (Inl e, st) \<Rightarrow> (todas_categorias st, logar ERROR (Erro_nao_tratado e) st))"

section \<open>The Sink Writers\<close>

text \<open>Each writer is a \<^verbatim>\<open>try\<close> block, whose result here is the value it returns or the
  exception that leaves it, and the handler \<^verbatim>\<open>except Exception: return False\<close>. The
  lines the writers and \<^verbatim>\<open>main\<close> log are not modelled.\<close>

definition salvar_csv_corpo :: "ambiente \<Rightarrow> pydict list \<Rightarrow> py_error + bool" where
  "salvar_csv_corpo amb categorias =
     (if categorias = [] then Inr False
      else case gravar_csv amb categorias of Some e \<Rightarrow> Inl e | None \<Rightarrow> Inr True)"

definition salvar_excel_corpo :: "ambiente \<Rightarrow> pydict list \<Rightarrow> py_error + bool" where
  "salvar_excel_corpo amb categorias =
     (if categorias = [] then Inr False
      else case gravar_excel amb categorias of Some e \<Rightarrow> Inl e | None \<Rightarrow> Inr True)"

definition salvar_postgres_corpo :: "ambiente \<Rightarrow> pydict list \<Rightarrow> py_error + bool" where
  "salvar_postgres_corpo amb categorias =
     (if categorias = [] then Inr False
      else case gravar_postgres amb categorias of Some e \<Rightarrow> Inl e | None \<Rightarrow> Inr True)"

definition salvar_csv :: "ambiente \<Rightarrow> pydict list \<Rightarrow> bool" where
  "salvar_csv amb categorias =
     (case salvar_csv_corpo amb categorias of Inr b \<Rightarrow> b | Inl e \<Rightarrow> False)"

definition salvar_excel :: "ambiente \<Rightarrow> pydict list \<Rightarrow> bool" where
  "salvar_excel amb categorias =
     (case salvar_excel_corpo amb categorias of Inr b \<Rightarrow> b | Inl e \<Rightarrow> False)"

definition salvar_postgres :: "ambiente \<Rightarrow> pydict list \<Rightarrow> bool" where
  "salvar_postgres amb categorias =
     (case salvar_postgres_corpo amb categorias of Inr b \<Rightarrow> b | Inl e \<Rightarrow> False)"

section \<open>The run\<close>

definition main :: "ambiente \<Rightarrow> bool" where
  "main amb =
     (let categorias = fst (extrair_categorias_via_api amb) in
      if categorias = [] then False
      else
        (let sucesso_csv = salvar_csv amb categorias;
             sucesso_excel = salvar_excel amb categorias;
             sucesso_postgres = salvar_postgres amb categorias
         in if sucesso_csv \<or> sucesso_excel \<or> sucesso_postgres then True else False))"

section \<open>Notions used in the statements\<close>

text \<open>The records and the log lines that the items of one page give, in order: an item
  gives its record when the Flattener returns one, and one error line otherwise.\<close>

definition registros_de :: "json list \<Rightarrow> pydict list" where
  "registros_de itens =
     concat (map (\<lambda>item. case flatten_item item of Inr r \<Rightarrow> [r] | Inl e \<Rightarrow> []) itens)"

definition erros_de :: "json list \<Rightarrow> registro" where
  "erros_de itens =
     concat (map (\<lambda>item. case flatten_item item of
                            Inr r \<Rightarrow> [] | Inl e \<Rightarrow> [(ERROR, Erro_item e)]) itens)"

text \<open>The items that a response of the API delivers to the loop over the items: those
  of \<^verbatim>\<open>data["data"]["global_cats"]\<close> when the status is 200 and the body passes the shape
  test, none otherwise.\<close>

definition itens_recebidos :: "json option resposta \<Rightarrow> json list" where
  "itens_recebidos r =
     (case r of
        Falha_conexao \<Rightarrow> []
      | Resposta status_code corpo \<Rightarrow>
          if status_code \<noteq> 200 then []
          else
            (case corpo of
               None \<Rightarrow> []
             | Some data \<Rightarrow>
                 (case estrutura_inesperada data of
                    Inr False \<Rightarrow>
                      (case bind_exc (py_getitem data ''data'') (\<lambda>d.
                              bind_exc (py_getitem d ''global_cats'') py_iter) of
                         Inr itens \<Rightarrow> itens
                       | Inl e \<Rightarrow> [])
                  | Inr True \<Rightarrow> []
                  | Inl e \<Rightarrow> [])))"

definition canonico :: "estado \<Rightarrow> bool" where
  "canonico st = (\<forall>r \<in> set (todas_categorias st). map fst r = colunas_esperadas)"

text \<open>A body of the shape the API documents,
  \<^verbatim>\<open>{"data": {"total": total, "global_cats": itens}}\<close>.\<close>

definition corpo_api :: "json \<Rightarrow> json list \<Rightarrow> json" where
  "corpo_api total_itens itens =
     JObj [(''data'', JObj [(''total'', total_itens), (''global_cats'', JList itens)])]"

section \<open>Concrete inputs\<close>

definition item_sapatos :: json where
  "item_sapatos =
     JObj [(''category_id'', JInt 100),
           (''path'', JList [JObj [(''category_id'', JInt 1), (''category_name'', JStr ''Moda'')],
                             JObj [(''category_id'', JInt 100), (''category_name'', JStr ''Sapatos'')]]),
           (''images'', JList [JStr ''a.png'', JStr ''b.png''])]"

definition item_sem_id :: json where
  "item_sem_id =
     JObj [(''path'', JList [JObj [(''category_name'', JStr ''Casa'')]]),
           (''images'', JList [])]"

definition item_sem_nome :: json where
  "item_sem_nome =
     JObj [(''category_id'', JInt 7),
           (''path'', JList [JObj [(''category_id'', JInt 7)]])]"

definition registro_sapatos :: pydict where
  "registro_sapatos =
     [(''categoria'', JStr ''Moda''), (''subcategoria'', JStr ''Sapatos''),
      (''3_nivel_categoria'', JStr ''''), (''4_nivel_categoria'', JStr ''''),
      (''5_nivel_categoria'', JStr ''''), (''id_categoria'', JInt 100),
      (''imagem_categoria'', JStr ''a.png'')]"

definition registro_casa :: pydict where
  "registro_casa =
     [(''categoria'', JStr ''Casa''), (''subcategoria'', JStr ''''),
      (''3_nivel_categoria'', JStr ''''), (''4_nivel_categoria'', JStr ''''),
      (''5_nivel_categoria'', JStr ''''), (''id_categoria'', JStr ''''),
      (''imagem_categoria'', JStr '''')]"

text \<open>An environment around a given API: the landing page answers with one cookie, the
  CSV file can be written, the spreadsheet and the database cannot.\<close>

definition amb_com :: "(int \<Rightarrow> json option resposta) \<Rightarrow> ambiente" where
  "amb_com f =
     \<lparr>pagina_inicial = Resposta 200 [(''SPC_EC'', ''abc'')],
      api = (\<lambda>cs. f),
      gravar_csv = (\<lambda>cats. None),
      gravar_excel = (\<lambda>cats. Some AttributeError),
      gravar_postgres = (\<lambda>cats. Some RequestException)\<rparr>"

text \<open>Three pages for a declared total of 250 items.\<close>

definition api_tres_paginas :: "int \<Rightarrow> json option resposta" where
  "api_tres_paginas p =
     (if p = 1 then Resposta 200 (Some (corpo_api (JInt 250) [item_sapatos, item_sem_nome]))
      else if p = 2 then Resposta 200 (Some (corpo_api (JInt 250) [item_sem_id]))
      else if p = 3 then Resposta 200 (Some (corpo_api (JInt 250) [item_sapatos]))
      else Resposta 404 None)"

text \<open>The same API when the request for page 2 fails at the network level, when it is
  answered with status 500, and when its body is \<^verbatim>\<open>{"data": {}}\<close>.\<close>

definition api_pagina2_cai :: "int \<Rightarrow> json option resposta" where
  "api_pagina2_cai p = (if p = 2 then Falha_conexao else api_tres_paginas p)"

definition api_pagina2_500 :: "int \<Rightarrow> json option resposta" where
  "api_pagina2_500 p = (if p = 2 then Resposta 500 None else api_tres_paginas p)"

definition api_pagina2_sem_cats :: "int \<Rightarrow> json option resposta" where
  "api_pagina2_sem_cats p =
     (if p = 2 then Resposta 200 (Some (JObj [(''data'', JObj [])])) else api_tres_paginas p)"

text \<open>The same API when the body of page 1 is \<^verbatim>\<open>{"error": "x"}\<close>, and when page 1 has
  its items but no \<^verbatim>\<open>total\<close>.\<close>

definition api_pagina1_sem_data :: "int \<Rightarrow> json option resposta" where
  "api_pagina1_sem_data p =
     (if p = 1 then Resposta 200 (Some (JObj [(''error'', JStr ''x'')])) else api_tres_paginas p)"

definition api_sem_total :: "int \<Rightarrow> json option resposta" where
  "api_sem_total p =
     (if p = 1 then
        Resposta 200 (Some (JObj [(''data'', JObj [(''global_cats'', JList [item_sapatos])])]))
      else api_tres_paginas p)"

text \<open>The same API when the first request is answered with status 503.\<close>

definition api_pagina1_503 :: "int \<Rightarrow> json option resposta" where
  "api_pagina1_503 p = (if p = 1 then Resposta 503 None else api_tres_paginas p)"

text \<open>An item with an identifier and nothing else, \<^verbatim>\<open>{"category_id": 5}\<close>, and its record.\<close>

definition item_so_id :: json where
  "item_so_id = JObj [(''category_id'', JInt 5)]"

definition registro_so_id :: pydict where
  "registro_so_id =
     [(''categoria'', JStr ''''), (''subcategoria'', JStr ''''),
      (''3_nivel_categoria'', JStr ''''), (''4_nivel_categoria'', JStr ''''),
      (''5_nivel_categoria'', JStr ''''), (''id_categoria'', JInt 5),
      (''imagem_categoria'', JStr '''')]"

section \<open>Basic facts\<close>

lemma bind_exc_Inl [simp]: "bind_exc (Inl e) f = Inl e"
  by (simp add: bind_exc_def)

lemma bind_exc_Inr [simp]: "bind_exc (Inr x) f = f x"
  by (simp add: bind_exc_def)

lemma bind_exc_eq_Inr:
  "bind_exc m f = Inr y \<longleftrightarrow> (\<exists>x. m = Inr x \<and> f x = Inr y)"
  by (cases m) simp_all

lemma nivel_lista:
  "nivel (JList nos) i =
     (if i < length nos then py_getitem (nos ! i) ''category_name'' else Inr (JStr ''''))"
  by (simp add: nivel_def)

lemma primeira_imagem_lista:
  "primeira_imagem (JList imgs) = Inr (case imgs of [] \<Rightarrow> JStr '''' | img # resto \<Rightarrow> img)"
  by (cases imgs) (simp_all add: primeira_imagem_def)

lemma flatten_item_chaves:
  "flatten_item item = Inr r \<Longrightarrow> map fst r = colunas_esperadas"
  by (auto simp: flatten_item_def bind_exc_eq_Inr colunas_esperadas_def)

lemma flatten_item_campos:
  assumes "flatten_item (JObj kvs) = Inr r"
  shows "\<exists>c1 c2 c3 c4 c5.
           nivel (case map_of kvs ''path'' of None \<Rightarrow> JList [] | Some p \<Rightarrow> p) 0 = Inr c1 \<and>
           nivel (case map_of kvs ''path'' of None \<Rightarrow> JList [] | Some p \<Rightarrow> p) 1 = Inr c2 \<and>
           nivel (case map_of kvs ''path'' of None \<Rightarrow> JList [] | Some p \<Rightarrow> p) 2 = Inr c3 \<and>
           nivel (case map_of kvs ''path'' of None \<Rightarrow> JList [] | Some p \<Rightarrow> p) 3 = Inr c4 \<and>
           nivel (case map_of kvs ''path'' of None \<Rightarrow> JList [] | Some p \<Rightarrow> p) 4 = Inr c5 \<and>
           (\<exists>img. primeira_imagem (case map_of kvs ''images'' of None \<Rightarrow> JList [] | Some v \<Rightarrow> v) = Inr img \<and>
           r = [(''categoria'', c1), (''subcategoria'', c2), (''3_nivel_categoria'', c3),
                (''4_nivel_categoria'', c4), (''5_nivel_categoria'', c5),
                (''id_categoria'', case map_of kvs ''category_id'' of None \<Rightarrow> JStr '''' | Some v \<Rightarrow> v),
                (''imagem_categoria'', img)])"
  using assms by (auto simp: flatten_item_def bind_exc_eq_Inr)

lemma menor_5: "(i::nat) < 5 \<longleftrightarrow> i = 0 \<or> i = 1 \<or> i = 2 \<or> i = 3 \<or> i = 4"
  by arith

lemma flatten_item_bem_formado:
  assumes path: "py_get (JObj kvs) ''path'' (JList []) = Inr (JList nos)"
    and nomes: "\<forall>i<length nos. i < 5 \<longrightarrow> py_getitem (nos ! i) ''category_name'' = Inr (nomes i)"
    and imagens: "py_get (JObj kvs) ''images'' (JList []) = Inr (JList imgs)"
  shows "flatten_item (JObj kvs) =
           Inr [(''categoria'', if 0 < length nos then nomes 0 else JStr ''''),
                (''subcategoria'', if 1 < length nos then nomes 1 else JStr ''''),
                (''3_nivel_categoria'', if 2 < length nos then nomes 2 else JStr ''''),
                (''4_nivel_categoria'', if 3 < length nos then nomes 3 else JStr ''''),
                (''5_nivel_categoria'', if 4 < length nos then nomes 4 else JStr ''''),
                (''id_categoria'', case map_of kvs ''category_id'' of None \<Rightarrow> JStr '''' | Some v \<Rightarrow> v),
                (''imagem_categoria'', case imgs of [] \<Rightarrow> JStr '''' | img # resto \<Rightarrow> img)]"
proof -
  have n: "nivel (JList nos) i = Inr (if i < length nos then nomes i else JStr '''')" if "i < 5" for i
    using nomes that by (simp add: nivel_lista)
  have p: "(case map_of kvs ''path'' of None \<Rightarrow> JList [] | Some v \<Rightarrow> v) = JList nos"
    using path by simp
  have i: "(case map_of kvs ''images'' of None \<Rightarrow> JList [] | Some v \<Rightarrow> v) = JList imgs"
    using imagens by simp
  show ?thesis
    unfolding flatten_item_def py_get.simps bind_exc_Inr p i
    by (simp add: n primeira_imagem_lista del: One_nat_def)
qed

lemma flatten_sapatos: "flatten_item item_sapatos = Inr registro_sapatos"
  by (simp add: flatten_item_def item_sapatos_def registro_sapatos_def nivel_def primeira_imagem_def)

lemma flatten_sem_id: "flatten_item item_sem_id = Inr registro_casa"
  by (simp add: flatten_item_def item_sem_id_def registro_casa_def nivel_def primeira_imagem_def)

lemma flatten_so_id: "flatten_item item_so_id = Inr registro_so_id"
  by (simp add: flatten_item_def item_so_id_def registro_so_id_def nivel_def primeira_imagem_def)

lemma flatten_sem_nome: "flatten_item item_sem_nome = Inl KeyError"
  by (simp add: flatten_item_def item_sem_nome_def nivel_def primeira_imagem_def)

section \<open>The loops\<close>

lemma processar_itens_eq:
  "processar_itens itens st =
     st\<lparr>todas_categorias := todas_categorias st @ registros_de itens,
        logs := logs st @ erros_de itens\<rparr>"
proof (induction itens arbitrary: st)
  case Nil
  show ?case by (simp add: registros_de_def erros_de_def)
next
  case (Cons item itens)
  show ?case
    by (cases "flatten_item item")
       (simp_all add: Cons.IH registros_de_def erros_de_def logar_def)
qed

lemma processar_itens_append:
  "processar_itens (xs @ ys) st = processar_itens ys (processar_itens xs st)"
  by (induction xs arbitrary: st) simp_all

lemma registros_de_canonicos: "r \<in> set (registros_de itens) \<Longrightarrow> map fst r = colunas_esperadas"
  by (auto simp: registros_de_def dest: flatten_item_chaves [OF sym] split: sum.splits)

lemma canonico_logar [simp]: "canonico (logar n m st) = canonico st"
  by (simp add: canonico_def logar_def)

lemma canonico_requisitar [simp]: "canonico (requisitar p st) = canonico st"
  by (simp add: canonico_def requisitar_def)

lemma canonico_processar_itens [simp]: "canonico (processar_itens itens st) = canonico st"
  by (auto simp: canonico_def processar_itens_eq dest: registros_de_canonicos)

lemma processar_dados_casos:
  "(\<exists>e. processar_dados data st = (Inl e, st)) \<or>
   (\<exists>itens. processar_dados data st = (Inr data, processar_itens itens st))"
  by (auto simp: processar_dados_def split: sum.splits)

lemma canonico_processar_dados:
  "processar_dados data st = (res, st') \<Longrightarrow> canonico st' = canonico st"
  using processar_dados_casos [of data st] by auto

lemma requisicoes_processar_dados:
  "processar_dados data st = (res, st') \<Longrightarrow> requisicoes st' = requisicoes st"
  using processar_dados_casos [of data st] by (auto simp: processar_itens_eq)

lemma canonico_processar_pagina:
  "canonico st \<Longrightarrow> processar_pagina get pagina data st = (res, st') \<Longrightarrow> canonico st'"
  by (auto simp: processar_pagina_def Let_def
           split: if_splits resposta.splits option.splits sum.splits bool.splits
           dest: canonico_processar_dados)

lemma requisicoes_processar_pagina:
  "processar_pagina get pagina data st = (res, st') \<Longrightarrow>
     requisicoes st' = requisicoes st @ (if pagina > 1 then [pagina] else [])"
  by (auto simp: processar_pagina_def Let_def requisitar_def logar_def
           split: if_splits resposta.splits option.splits sum.splits bool.splits
           dest: requisicoes_processar_dados)

lemma canonico_processar_paginas:
  "canonico st \<Longrightarrow> processar_paginas get paginas data st = (res, st') \<Longrightarrow> canonico st'"
proof (induction paginas arbitrary: data st)
  case Nil
  then show ?case by simp
next
  case (Cons pagina paginas)
  obtain r st1 where p: "processar_pagina get pagina data st = (r, st1)"
    by (cases "processar_pagina get pagina data st")
  have c: "canonico st1"
    using canonico_processar_pagina [OF Cons.prems(1) p] .
  show ?case
  proof (cases r)
    case (Inl e)
    with Cons.prems(2) p c show ?thesis by simp
  next
    case (Inr data')
    with Cons.prems(2) p have "processar_paginas get paginas data' st1 = (res, st')"
      by simp
    from Cons.IH [OF c this] show ?thesis .
  qed
qed

lemma requisicoes_processar_paginas:
  "processar_paginas get paginas data st = (res, st') \<Longrightarrow>
     \<exists>feitas. prefix feitas paginas \<and>
       requisicoes st' = requisicoes st @ filter (\<lambda>p. p > 1) feitas \<and>
       (res = None \<longrightarrow> feitas = paginas)"
proof (induction paginas arbitrary: data st)
  case Nil
  then show ?case by auto
next
  case (Cons pagina paginas)
  obtain r st1 where p: "processar_pagina get pagina data st = (r, st1)"
    by (cases "processar_pagina get pagina data st")
  note q = requisicoes_processar_pagina [OF p]
  show ?case
  proof (cases r)
    case (Inl e)
    with Cons.prems p have "st' = st1" and "res = Some e" by simp_all
    with q have "prefix [pagina] (pagina # paginas) \<and>
       requisicoes st' = requisicoes st @ filter (\<lambda>p. p > 1) [pagina] \<and>
       (res = None \<longrightarrow> [pagina] = pagina # paginas)"
      by simp
    then show ?thesis by blast
  next
    case (Inr data')
    with Cons.prems p have "processar_paginas get paginas data' st1 = (res, st')"
      by simp
    from Cons.IH [OF this] obtain feitas where f: "prefix feitas paginas"
      "requisicoes st' = requisicoes st1 @ filter (\<lambda>p. p > 1) feitas"
      "res = None \<longrightarrow> feitas = paginas"
      by blast
    with q have "prefix (pagina # feitas) (pagina # paginas) \<and>
       requisicoes st' = requisicoes st @ filter (\<lambda>p. p > 1) (pagina # feitas) \<and>
       (res = None \<longrightarrow> pagina # feitas = pagina # paginas)"
      by simp
    then show ?thesis by blast
  qed
qed

section \<open>The first request\<close>

lemma py_in_getitem: "py_getitem x k = Inr v \<Longrightarrow> py_in k x = Inr True"
proof (cases x)
  case (JObj kvs)
  assume "py_getitem x k = Inr v"
  with JObj have "map_of kvs k = Some v"
    by (simp split: option.splits)
  then have "(k, v) \<in> set kvs"
    by (rule map_of_SomeD)
  then have "k \<in> fst ` set kvs"
    by force
  with JObj show ?thesis by simp
qed simp_all

lemma estrutura_esperada:
  "py_getitem data ''data'' = Inr d \<Longrightarrow> py_getitem d ''global_cats'' = Inr g \<Longrightarrow>
     estrutura_inesperada data = Inr False"
  by (simp add: estrutura_inesperada_def py_in_getitem)

lemma estrutura_inesperada_sem_data:
  "map_of kvs ''data'' = None \<Longrightarrow> estrutura_inesperada (JObj kvs) = Inr True"
  by (simp add: estrutura_inesperada_def map_of_eq_None_iff)

lemma estrutura_inesperada_sem_cats:
  "map_of kvs ''data'' = Some (JObj d) \<Longrightarrow> map_of d ''global_cats'' = None \<Longrightarrow>
     estrutura_inesperada (JObj kvs) = Inr True"
proof -
  assume a: "map_of kvs ''data'' = Some (JObj d)" and b: "map_of d ''global_cats'' = None"
  have "py_in ''data'' (JObj kvs) = Inr True"
    by (rule py_in_getitem [of _ _ "JObj d"]) (simp add: a)
  moreover have "py_in ''global_cats'' (JObj d) = Inr False"
    using b by (simp add: map_of_eq_None_iff)
  ultimately show ?thesis
    by (simp add: estrutura_inesperada_def a)
qed

lemma extrair_corpo_status:
  "get 1 = Resposta s corpo \<Longrightarrow> s \<noteq> 200 \<Longrightarrow>
     extrair_corpo get st = (Inr [], logar ERROR (Erro_api_status s) (requisitar 1 st))"
  by (simp add: extrair_corpo_def)

lemma extrair_corpo_estrutura:
  "get 1 = Resposta 200 (Some data) \<Longrightarrow> estrutura_inesperada data = Inr True \<Longrightarrow>
     extrair_corpo get st = (Inr [], logar ERROR (Estrutura_inesperada data) (requisitar 1 st))"
  by (simp add: extrair_corpo_def)

lemma extrair_corpo_paginas:
  assumes "get 1 = Resposta 200 (Some data)"
    and "py_getitem data ''data'' = Inr d"
    and "py_getitem d ''global_cats'' = Inr g"
    and "py_get d ''total'' (JInt 0) = Inr total_itens"
    and "calcular_total_paginas total_itens = Inr (JInt n)"
  shows "extrair_corpo get st =
           (case processar_paginas get [1..n] data
                   (logar INFO (Total_paginas (JInt n))
                     (logar INFO (Total_itens total_itens) (requisitar 1 st))) of
              (Some e, st3) \<Rightarrow> (Inl e, st3)
            | (None, st3) \<Rightarrow>
                (Inr (todas_categorias st3),
                 logar INFO (Total_extraidas (length (todas_categorias st3))) st3))"
  by (simp add: extrair_corpo_def Let_def assms estrutura_esperada [OF assms(2,3)])

lemma processar_dados_lista:
  "py_getitem data ''data'' = Inr d \<Longrightarrow> py_getitem d ''global_cats'' = Inr (JList itens) \<Longrightarrow>
     processar_dados data st = (Inr data, processar_itens itens st)"
  by (simp add: processar_dados_def)

lemma processar_paginas_primeira:
  "py_getitem data ''data'' = Inr d \<Longrightarrow> py_getitem d ''global_cats'' = Inr (JList itens) \<Longrightarrow>
     processar_paginas get (1 # paginas) data st =
       processar_paginas get paginas data (processar_itens itens st)"
  by (simp add: processar_pagina_def processar_dados_lista)

lemma processar_paginas_status:
  "1 < pagina \<Longrightarrow> get pagina = Resposta s corpo \<Longrightarrow> s \<noteq> 200 \<Longrightarrow>
     processar_paginas get (pagina # paginas) data st =
       processar_paginas get paginas data
         (logar ERROR (Erro_pagina_status pagina s) (requisitar pagina st))"
  by (simp add: processar_pagina_def Let_def)

lemma processar_paginas_estrutura:
  "1 < pagina \<Longrightarrow> get pagina = Resposta 200 (Some data') \<Longrightarrow>
   estrutura_inesperada data' = Inr True \<Longrightarrow>
     processar_paginas get (pagina # paginas) data st =
       processar_paginas get paginas data'
         (logar ERROR (Estrutura_inesperada_pagina pagina) (requisitar pagina st))"
  by (simp add: processar_pagina_def Let_def)

lemma processar_paginas_lista:
  "1 < pagina \<Longrightarrow> get pagina = Resposta 200 (Some data') \<Longrightarrow>
   py_getitem data' ''data'' = Inr d \<Longrightarrow> py_getitem d ''global_cats'' = Inr (JList itens) \<Longrightarrow>
     processar_paginas get (pagina # paginas) data st =
       processar_paginas get paginas data' (processar_itens itens (requisitar pagina st))"
  by (simp add: processar_pagina_def Let_def processar_dados_lista estrutura_esperada)

lemma extrair_fst:
  "fst (extrair_categorias_via_api amb) =
     (case extrair_try amb of (Inr categorias, st) \<Rightarrow> categorias
                              | (Inl e, st) \<Rightarrow> todas_categorias st)"
  by (simp add: extrair_categorias_via_api_def split: prod.splits sum.splits)

lemma extrair_requisicoes:
  "requisicoes (snd (extrair_categorias_via_api amb)) = requisicoes (snd (extrair_try amb))"
  by (simp add: extrair_categorias_via_api_def logar_def split: prod.splits sum.splits)

lemma todas_logar [simp]: "todas_categorias (logar n m st) = todas_categorias st"
  by (simp add: logar_def)

lemma extrair_corpo_canonico:
  "canonico st \<Longrightarrow> extrair_corpo get st = (res, st') \<Longrightarrow> canonico st'"
  by (auto simp: extrair_corpo_def Let_def
           split: if_splits resposta.splits option.splits sum.splits bool.splits prod.splits
           dest: canonico_processar_paginas [rotated])

lemma extrair_corpo_retorno:
  "extrair_corpo get st = (Inr cats, st') \<Longrightarrow> cats = [] \<or> cats = todas_categorias st'"
  by (auto simp: extrair_corpo_def Let_def
           split: if_splits resposta.splits option.splits sum.splits bool.splits prod.splits)

section \<open>Runs on the concrete inputs\<close>

lemma registros_pagina1: "registros_de [item_sapatos, item_sem_nome] = [registro_sapatos]"
  by (simp add: registros_de_def flatten_sapatos flatten_sem_nome)

lemma erros_pagina1: "erros_de [item_sapatos, item_sem_nome] = [(ERROR, Erro_item KeyError)]"
  by (simp add: erros_de_def flatten_sapatos flatten_sem_nome)

lemma registros_pagina2: "registros_de [item_sem_id] = [registro_casa]"
  by (simp add: registros_de_def flatten_sem_id)

lemma erros_pagina2: "erros_de [item_sem_id] = []"
  by (simp add: erros_de_def flatten_sem_id)

lemma registros_pagina3: "registros_de [item_sapatos] = [registro_sapatos]"
  by (simp add: registros_de_def flatten_sapatos)

lemma erros_pagina3: "erros_de [item_sapatos] = []"
  by (simp add: erros_de_def flatten_sapatos)

lemmas paginas_concretas =
  registros_pagina1 erros_pagina1 registros_pagina2 erros_pagina2 registros_pagina3 erros_pagina3

lemma sessao_amb_com [simp]: "api_da_sessao (amb_com f) = f"
  by (simp add: api_da_sessao_def amb_com_def)

lemma extrair_try_amb_com:
  "extrair_try (amb_com f) = extrair_corpo f (estado_inicial\<lparr>logs := [(INFO, Cookies_obtidos)]\<rparr>)"
  by (simp add: extrair_try_def obter_cookie_sessao_def api_da_sessao_def amb_com_def)

lemma corpo_api_data [simp]:
  "py_getitem (corpo_api t itens) ''data'' = Inr (JObj [(''total'', t), (''global_cats'', JList itens)])"
  by (simp add: corpo_api_def)

lemma upto_1_3: "[1..3] = [1, 2, 3::int]"
  by (simp add: upto_rec1)

lemma corpo_api_cats [simp]:
  "py_getitem (JObj [(''total'', t), (''global_cats'', JList itens)]) ''global_cats'' =
     Inr (JList itens)"
  by simp

lemma corpo_api_total [simp]:
  "py_get (JObj [(''total'', t), (''global_cats'', JList itens)]) ''total'' (JInt 0) = Inr t"
  by simp

lemma processar_paginas_primeira_api:
  "processar_paginas get (1 # ps) (corpo_api t itens) st =
     processar_paginas get ps (corpo_api t itens) (processar_itens itens st)"
  by (rule processar_paginas_primeira [OF corpo_api_data corpo_api_cats])

lemma processar_paginas_lista_api:
  "1 < pagina \<Longrightarrow> get pagina = Resposta 200 (Some (corpo_api t itens)) \<Longrightarrow>
     processar_paginas get (pagina # ps) data st =
       processar_paginas get ps (corpo_api t itens) (processar_itens itens (requisitar pagina st))"
  by (rule processar_paginas_lista [OF _ _ corpo_api_data corpo_api_cats])

lemma extrair_corpo_api:
  "get 1 = Resposta 200 (Some (corpo_api t itens)) \<Longrightarrow>
   calcular_total_paginas t = Inr (JInt n) \<Longrightarrow>
     extrair_corpo get st =
       (case processar_paginas get [1..n] (corpo_api t itens)
               (logar INFO (Total_paginas (JInt n))
                 (logar INFO (Total_itens t) (requisitar 1 st))) of
          (Some e, st3) \<Rightarrow> (Inl e, st3)
        | (None, st3) \<Rightarrow>
            (Inr (todas_categorias st3),
             logar INFO (Total_extraidas (length (todas_categorias st3))) st3))"
  by (rule extrair_corpo_paginas [OF _ corpo_api_data corpo_api_cats corpo_api_total])

lemma total_250: "calcular_total_paginas (JInt 250) = Inr (JInt 3)"
  by (simp add: tamanho_pagina_def)

section \<open>The whole extraction\<close>

lemma extrair_retorna:
  "extrair_try amb = (Inr cats, st) \<Longrightarrow> extrair_categorias_via_api amb = (cats, st)"
  by (simp add: extrair_categorias_via_api_def)

lemma extrair_status:
  assumes "api_da_sessao amb 1 = Resposta s corpo" and "s \<noteq> 200"
  shows "extrair_categorias_via_api amb =
           ([], \<lparr>todas_categorias = [],
                 logs = snd (obter_cookie_sessao (pagina_inicial amb)) @ [(ERROR, Erro_api_status s)],
                 requisicoes = [1]\<rparr>)"
  by (rule trans [OF extrair_retorna])
     (simp_all add: extrair_try_def extrair_corpo_status [where get = "api_da_sessao amb", OF assms]
        logar_def requisitar_def estado_inicial_def)

lemma extrair_estrutura:
  assumes "api_da_sessao amb 1 = Resposta 200 (Some data)"
    and "estrutura_inesperada data = Inr True"
  shows "extrair_categorias_via_api amb =
           ([], \<lparr>todas_categorias = [],
                 logs = snd (obter_cookie_sessao (pagina_inicial amb)) @
                          [(ERROR, Estrutura_inesperada data)],
                 requisicoes = [1]\<rparr>)"
  by (rule trans [OF extrair_retorna])
     (simp_all add: extrair_try_def extrair_corpo_estrutura [where get = "api_da_sessao amb", OF assms]
        logar_def requisitar_def estado_inicial_def)

lemma extrair_sem_paginas:
  assumes "api_da_sessao amb 1 = Resposta 200 (Some data)"
    and "py_getitem data ''data'' = Inr d"
    and "py_getitem d ''global_cats'' = Inr g"
    and "py_get d ''total'' (JInt 0) = Inr total_itens"
    and "calcular_total_paginas total_itens = Inr (JInt 0)"
  shows "extrair_categorias_via_api amb =
           ([], \<lparr>todas_categorias = [],
                 logs = snd (obter_cookie_sessao (pagina_inicial amb)) @
                          [(INFO, Total_itens total_itens), (INFO, Total_paginas (JInt 0)),
                           (INFO, Total_extraidas 0)],
                 requisicoes = [1]\<rparr>)"
  by (rule trans [OF extrair_retorna])
     (simp_all add: extrair_try_def extrair_corpo_paginas [where get = "api_da_sessao amb", OF assms]
        logar_def requisitar_def estado_inicial_def)

lemma registros_de_Nil [simp]: "registros_de [] = []"
  by (simp add: registros_de_def)

lemma processar_dados_iter:
  "py_getitem data ''data'' = Inr d \<Longrightarrow> py_getitem d ''global_cats'' = Inr g \<Longrightarrow>
   py_iter g = Inr itens \<Longrightarrow>
     processar_dados data st = (Inr data, processar_itens itens st)"
  by (simp add: processar_dados_def)

lemma processar_paginas_primeira_iter:
  "py_getitem data ''data'' = Inr d \<Longrightarrow> py_getitem d ''global_cats'' = Inr g \<Longrightarrow>
   py_iter g = Inr itens \<Longrightarrow>
     processar_paginas get (1 # paginas) data st =
       processar_paginas get paginas data (processar_itens itens st)"
  by (simp add: processar_pagina_def processar_dados_iter)

lemma itens_recebidos_iter:
  "py_getitem data ''data'' = Inr d \<Longrightarrow> py_getitem d ''global_cats'' = Inr g \<Longrightarrow>
   py_iter g = Inr itens \<Longrightarrow>
     itens_recebidos (Resposta 200 (Some data)) = itens"
  by (simp add: itens_recebidos_def estrutura_esperada)

lemma itens_recebidos_api [simp]:
  "itens_recebidos (Resposta 200 (Some (corpo_api t itens))) = itens"
  by (rule itens_recebidos_iter [OF corpo_api_data corpo_api_cats]) simp

lemma processar_pagina_recebidos:
  assumes "1 < pagina" and "processar_pagina get pagina data st = (res, st')"
  shows "todas_categorias st' =
           todas_categorias st @ registros_de (itens_recebidos (get pagina)) \<and>
         requisicoes st' = requisicoes st @ [pagina]"
proof (cases "get pagina")
  case Falha_conexao
  with assms show ?thesis
    by (auto simp: processar_pagina_def itens_recebidos_def Let_def requisitar_def)
next
  case (Resposta status_code corpo)
  show ?thesis
  proof (cases "status_code = 200")
    case False
    with assms Resposta show ?thesis
      by (auto simp: processar_pagina_def itens_recebidos_def Let_def requisitar_def logar_def)
  next
    case True
    show ?thesis
    proof (cases corpo)
      case None
      with assms Resposta True show ?thesis
        by (auto simp: processar_pagina_def itens_recebidos_def Let_def requisitar_def)
    next
      case (Some data')
      show ?thesis
      proof (cases "estrutura_inesperada data'")
        case (Inl e)
        with assms Resposta True Some show ?thesis
          by (auto simp: processar_pagina_def itens_recebidos_def Let_def requisitar_def)
      next
        case (Inr falta)
        show ?thesis
        proof (cases falta)
          case True
          with assms Resposta \<open>status_code = 200\<close> Some Inr show ?thesis
            by (auto simp: processar_pagina_def itens_recebidos_def Let_def requisitar_def logar_def)
        next
          case False
          with assms Resposta \<open>status_code = 200\<close> Some Inr show ?thesis
            by (auto simp: processar_pagina_def itens_recebidos_def Let_def requisitar_def
                  processar_dados_def processar_itens_eq split: sum.splits)
        qed
      qed
    qed
  qed
qed

lemma extrair_pagina2_pulada:
  assumes p1: "api_da_sessao amb 1 = Resposta 200 (Some data1)"
    and d1: "py_getitem data1 ''data'' = Inr d1"
    and g1: "py_getitem d1 ''global_cats'' = Inr g1"
    and i1: "py_iter g1 = Inr itens1"
    and t: "py_get d1 ''total'' (JInt 0) = Inr total_itens"
    and n: "calcular_total_paginas total_itens = Inr (JInt 3)"
    and p2: "api_da_sessao amb 2 = Resposta s2 corpo2" and s2: "s2 \<noteq> 200"
  shows "fst (extrair_categorias_via_api amb) =
           registros_de itens1 @ registros_de (itens_recebidos (api_da_sessao amb 3)) \<and>
         requisicoes (snd (extrair_categorias_via_api amb)) = [1, 2, 3]"
proof -
  define st0 where "st0 = logar INFO (Total_paginas (JInt 3))
      (logar INFO (Total_itens total_itens)
        (requisitar 1 (estado_inicial\<lparr>logs := snd (obter_cookie_sessao (pagina_inicial amb))\<rparr>)))"
  define st2 where "st2 = logar ERROR (Erro_pagina_status 2 s2)
      (requisitar 2 (processar_itens itens1 st0))"
  obtain r st3 where p3: "processar_pagina (api_da_sessao amb) 3 data1 st2 = (r, st3)"
    by (cases "processar_pagina (api_da_sessao amb) 3 data1 st2")
  have "todas_categorias st2 = registros_de itens1" and "requisicoes st2 = [1, 2]"
    by (simp_all add: st2_def st0_def processar_itens_eq logar_def requisitar_def estado_inicial_def)
  with processar_pagina_recebidos [OF _ p3]
  have st3: "todas_categorias st3 =
        registros_de itens1 @ registros_de (itens_recebidos (api_da_sessao amb 3))"
      "requisicoes st3 = [1, 2, 3]"
    by simp_all
  have "processar_paginas (api_da_sessao amb) [1, 2, 3] data1 st0 =
        processar_paginas (api_da_sessao amb) [3] data1 st2"
    unfolding st2_def processar_paginas_primeira_iter [OF d1 g1 i1]
    by (simp add: processar_paginas_status [where get = "api_da_sessao amb", OF _ p2 s2]
          del: processar_paginas.simps(2))
  also have "\<dots> = (case r of Inl e \<Rightarrow> Some e | Inr d \<Rightarrow> None, st3)"
    by (simp add: p3 split: sum.splits)
  finally have "extrair_try amb =
        (case r of Inl e \<Rightarrow> (Inl e, st3)
         | Inr d \<Rightarrow> (Inr (todas_categorias st3),
                       logar INFO (Total_extraidas (length (todas_categorias st3))) st3))"
    unfolding extrair_try_def
      extrair_corpo_paginas [where get = "api_da_sessao amb", OF p1 d1 g1 t n] upto_1_3
    by (simp add: st0_def split: sum.splits)
  then show ?thesis
    by (simp add: extrair_categorias_via_api_def st3 logar_def split: sum.splits)
qed

lemma prefixo_requisicoes_3:
  assumes "prefix feitas [1, 2, 3::int]"
  shows "prefix (1 # filter (\<lambda>p. p > 1) feitas) [1, 2, 3] "
proof -
  from assms have "feitas = [] \<or> feitas = [1] \<or> feitas = [1, 2] \<or> feitas = [1, 2, 3]"
    by (auto simp: prefix_Cons)
  then show ?thesis by auto
qed

lemma extrair_250:
  assumes "api_da_sessao amb 1 = Resposta 200 (Some data)"
    and "py_getitem data ''data'' = Inr d"
    and "py_getitem d ''global_cats'' = Inr g"
    and "py_get d ''total'' (JInt 0) = Inr (JInt 250)"
  shows "prefix (requisicoes (snd (extrair_categorias_via_api amb))) [1, 2, 3] \<and>
         requisicoes (snd (extrair_categorias_via_api amb)) \<noteq> [] \<and>
         (\<forall>cats. fst (extrair_try amb) = Inr cats \<longrightarrow>
            requisicoes (snd (extrair_categorias_via_api amb)) = [1, 2, 3])"
proof -
  define st0 where "st0 = logar INFO (Total_paginas (JInt 3))
      (logar INFO (Total_itens (JInt 250))
        (requisitar 1 (estado_inicial\<lparr>logs := snd (obter_cookie_sessao (pagina_inicial amb))\<rparr>)))"
  obtain res st where p: "processar_paginas (api_da_sessao amb) [1, 2, 3] data st0 = (res, st)"
    by (cases "processar_paginas (api_da_sessao amb) [1, 2, 3] data st0")
  have r0: "requisicoes st0 = [1]"
    by (simp add: st0_def logar_def requisitar_def estado_inicial_def)
  from requisicoes_processar_paginas [OF p] r0 obtain feitas
    where f: "prefix feitas [1, 2, 3]" "requisicoes st = 1 # filter (\<lambda>p. p > 1) feitas"
      "res = None \<longrightarrow> feitas = [1, 2, 3]"
    by auto
  have t: "extrair_try amb =
        (case res of Some e \<Rightarrow> (Inl e, st)
         | None \<Rightarrow> (Inr (todas_categorias st),
                      logar INFO (Total_extraidas (length (todas_categorias st))) st))"
    unfolding extrair_try_def extrair_corpo_paginas [where get = "api_da_sessao amb", OF assms total_250] upto_1_3
    using p by (simp add: st0_def split: option.splits)
  have q: "requisicoes (snd (extrair_categorias_via_api amb)) = requisicoes st"
    unfolding extrair_requisicoes t by (simp add: logar_def split: option.splits)
  have "\<forall>cats. fst (extrair_try amb) = Inr cats \<longrightarrow> res = None"
    unfolding t by (simp split: option.splits)
  with f q prefixo_requisicoes_3 [OF f(1)] show ?thesis
    by auto
qed

lemma teto_paginas: "(n + 100 - 1) div 100 = \<lceil>real_of_int n / 100\<rceil>"
proof -
  define z where "z = (n + 99) div 100"
  have e: "n + 99 = 100 * z + (n + 99) mod 100"
    unfolding z_def by (rule mult_div_mod_eq [symmetric])
  have m: "0 \<le> (n + 99) mod 100" "(n + 99) mod 100 < 100"
    by simp_all
  from e m have a: "100 * z - 100 < n" "n \<le> 100 * z"
    by linarith+
  from a(1) have "real_of_int (100 * z - 100) < real_of_int n"
    by (simp only: of_int_less_iff)
  then have b: "real_of_int z - 1 < real_of_int n / 100"
    by simp
  from a(2) have "real_of_int n \<le> real_of_int (100 * z)"
    by (simp only: of_int_le_iff)
  then have c: "real_of_int n / 100 \<le> real_of_int z"
    by simp
  from b c have "\<lceil>real_of_int n / 100\<rceil> = z"
    by (rule ceiling_unique)
  then show ?thesis
    by (simp add: z_def)
qed

lemma processar_paginas_falha:
  "1 < pagina \<Longrightarrow> get pagina = Falha_conexao \<Longrightarrow>
     processar_paginas get (pagina # paginas) data st =
       (Some RequestException, requisitar pagina st)"
  by (simp add: processar_pagina_def Let_def)

lemma tentar_tres_paginas:
  "extrair_try (amb_com api_tres_paginas) =
     (Inr [registro_sapatos, registro_casa, registro_sapatos],
      \<lparr>todas_categorias = [registro_sapatos, registro_casa, registro_sapatos],
       logs = [(INFO, Cookies_obtidos), (INFO, Total_itens (JInt 250)),
               (INFO, Total_paginas (JInt 3)), (ERROR, Erro_item KeyError),
               (INFO, Total_extraidas 3)],
       requisicoes = [1, 2, 3]\<rparr>)"
proof -
  have e: "extrair_corpo api_tres_paginas st =
           (case processar_paginas api_tres_paginas [1..3]
                   (corpo_api (JInt 250) [item_sapatos, item_sem_nome])
                   (logar INFO (Total_paginas (JInt 3))
                     (logar INFO (Total_itens (JInt 250)) (requisitar 1 st))) of
              (Some e, st3) \<Rightarrow> (Inl e, st3)
            | (None, st3) \<Rightarrow>
                (Inr (todas_categorias st3),
                 logar INFO (Total_extraidas (length (todas_categorias st3))) st3))" for st
    by (rule extrair_corpo_api [OF _ total_250]) (simp add: api_tres_paginas_def)
  have p2: "processar_paginas api_tres_paginas (2 # ps) d st =
        processar_paginas api_tres_paginas ps (corpo_api (JInt 250) [item_sem_id])
          (processar_itens [item_sem_id] (requisitar 2 st))" for ps d st
    by (rule processar_paginas_lista_api) (simp_all add: api_tres_paginas_def)
  have p3: "processar_paginas api_tres_paginas (3 # ps) d st =
        processar_paginas api_tres_paginas ps (corpo_api (JInt 250) [item_sapatos])
          (processar_itens [item_sapatos] (requisitar 3 st))" for ps d st
    by (rule processar_paginas_lista_api) (simp_all add: api_tres_paginas_def)
  show ?thesis
    unfolding extrair_try_amb_com e upto_1_3 processar_paginas_primeira_api p2 p3
    by (simp add: processar_itens_eq paginas_concretas logar_def requisitar_def estado_inicial_def)
qed

lemma extrair_tres_paginas:
  "extrair_categorias_via_api (amb_com api_tres_paginas) =
     ([registro_sapatos, registro_casa, registro_sapatos],
      \<lparr>todas_categorias = [registro_sapatos, registro_casa, registro_sapatos],
       logs = [(INFO, Cookies_obtidos), (INFO, Total_itens (JInt 250)),
               (INFO, Total_paginas (JInt 3)), (ERROR, Erro_item KeyError),
               (INFO, Total_extraidas 3)],
       requisicoes = [1, 2, 3]\<rparr>)"
  by (rule extrair_retorna [OF tentar_tres_paginas])

lemma extrair_pagina2_cai:
  "extrair_categorias_via_api (amb_com api_pagina2_cai) =
     ([registro_sapatos],
      \<lparr>todas_categorias = [registro_sapatos],
       logs = [(INFO, Cookies_obtidos), (INFO, Total_itens (JInt 250)),
               (INFO, Total_paginas (JInt 3)), (ERROR, Erro_item KeyError),
               (ERROR, Erro_nao_tratado RequestException)],
       requisicoes = [1, 2]\<rparr>)"
proof -
  have e: "extrair_corpo api_pagina2_cai st =
           (case processar_paginas api_pagina2_cai [1..3]
                   (corpo_api (JInt 250) [item_sapatos, item_sem_nome])
                   (logar INFO (Total_paginas (JInt 3))
                     (logar INFO (Total_itens (JInt 250)) (requisitar 1 st))) of
              (Some e, st3) \<Rightarrow> (Inl e, st3)
            | (None, st3) \<Rightarrow>
                (Inr (todas_categorias st3),
                 logar INFO (Total_extraidas (length (todas_categorias st3))) st3))" for st
    by (rule extrair_corpo_api [OF _ total_250])
       (simp add: api_pagina2_cai_def api_tres_paginas_def)
  have p2: "processar_paginas api_pagina2_cai (2 # ps) d st =
        (Some RequestException, requisitar 2 st)" for ps d st
    by (rule processar_paginas_falha) (simp_all add: api_pagina2_cai_def)
  show ?thesis
    unfolding extrair_categorias_via_api_def extrair_try_amb_com e upto_1_3
      processar_paginas_primeira_api p2
    by (simp add: processar_itens_eq paginas_concretas logar_def requisitar_def estado_inicial_def)
qed

section \<open>The writers\<close>

lemma salvar_csv_amb_com: "salvar_csv (amb_com f) cats = (cats \<noteq> [])"
  by (simp add: salvar_csv_def salvar_csv_corpo_def amb_com_def)

lemma salvar_excel_amb_com: "salvar_excel (amb_com f) cats = False"
  by (simp add: salvar_excel_def salvar_excel_corpo_def amb_com_def)

lemma salvar_postgres_amb_com: "salvar_postgres (amb_com f) cats = False"
  by (simp add: salvar_postgres_def salvar_postgres_corpo_def amb_com_def)

lemma salvar_vazio:
  "\<not> salvar_csv amb []" "\<not> salvar_excel amb []" "\<not> salvar_postgres amb []"
  by (simp_all add: salvar_csv_corpo_def salvar_csv_def salvar_excel_corpo_def salvar_excel_def
        salvar_postgres_corpo_def salvar_postgres_def)

lemma main_se_salvou:
  assumes "salvar_csv amb (fst (extrair_categorias_via_api amb)) \<or>
           salvar_excel amb (fst (extrair_categorias_via_api amb)) \<or>
           salvar_postgres amb (fst (extrair_categorias_via_api amb))"
  shows "main amb"
proof -
  from assms salvar_vazio [of amb] have "fst (extrair_categorias_via_api amb) \<noteq> []"
    by auto
  with assms show ?thesis
    by (simp add: main_def Let_def)
qed

section \<open>The claims of the specification\<close>

subsection \<open>The Flattener\<close>

text \<open>
  Claim C1. Take a raw category record: an object whose ancestry path
  (\<^verbatim>\<open>item.get("path", [])\<close>) is a list \<open>nos\<close> of depth \<open>d = length nos\<close>, whose nodes at
  the indices below 5 carry a \<^verbatim>\<open>category_name\<close>, \<open>nomes i\<close> at index \<open>i\<close>, and whose
  images, when present, are a list. The Flattener returns a record, and for each of the
  five indices \<open>i\<close> the field at position \<open>i\<close> of the record is the level field of that
  index (\<^verbatim>\<open>categoria\<close>, \<^verbatim>\<open>subcategoria\<close>, \<^verbatim>\<open>3_nivel_categoria\<close>,
  \<^verbatim>\<open>4_nivel_categoria\<close>, \<^verbatim>\<open>5_nivel_categoria\<close>); its value is the name of the path
  node at index \<open>i\<close> when \<open>i < d\<close> and the empty string when \<open>i \<ge> d\<close>. The bound
  \<open>d \<le> 5\<close> of the claim is not needed: a deeper path gives its first five names.
\<close>

theorem flatten_item_niveis:
  assumes "py_get (JObj kvs) ''path'' (JList []) = Inr (JList nos)"
    and "\<forall>i<length nos. i < 5 \<longrightarrow> py_getitem (nos ! i) ''category_name'' = Inr (nomes i)"
    and "py_get (JObj kvs) ''images'' (JList []) = Inr (JList imgs)"
  shows "\<exists>r. flatten_item (JObj kvs) = Inr r \<and>
           (\<forall>i<5. r ! i = (colunas_esperadas ! i, if i < length nos then nomes i else JStr ''''))"
  unfolding flatten_item_bem_formado [OF assms]
  by (simp add: menor_5 colunas_esperadas_def del: One_nat_def)

theorem flatten_item_niveis_witness:
  "\<exists>r. flatten_item item_sapatos = Inr r \<and>
     (\<forall>i<5. r ! i = (colunas_esperadas ! i,
                     if i < 2 then [JStr ''Moda'', JStr ''Sapatos''] ! i else JStr ''''))"
  using flatten_item_niveis
    [of "[(''category_id'', JInt 100),
          (''path'', JList [JObj [(''category_id'', JInt 1), (''category_name'', JStr ''Moda'')],
                            JObj [(''category_id'', JInt 100), (''category_name'', JStr ''Sapatos'')]]),
          (''images'', JList [JStr ''a.png'', JStr ''b.png''])]"
        "[JObj [(''category_id'', JInt 1), (''category_name'', JStr ''Moda'')],
          JObj [(''category_id'', JInt 100), (''category_name'', JStr ''Sapatos'')]]"
        "\<lambda>i. [JStr ''Moda'', JStr ''Sapatos''] ! i"
        "[JStr ''a.png'', JStr ''b.png'']"]
  by (simp add: item_sapatos_def less_Suc_eq numeral_2_eq_2 del: One_nat_def)

text \<open>
  Claim C7. Take an object whose images are a list \<open>imgs\<close>, or are absent, which counts
  as the empty list. Reading the images never makes the Flattener raise: when the
  ancestry path is a list whose nodes at the indices below 5 carry a \<^verbatim>\<open>category_name\<close>,
  the Flattener returns a record. In the record returned, and in any record that the
  Flattener returns for such an object whatever its path, the last field is
  \<^verbatim>\<open>imagem_categoria\<close> and holds the first entry of the list when the list is not
  empty, and the empty string when the list is empty or absent.
\<close>

theorem flatten_item_imagem:
  assumes "map_of kvs ''images'' = None \<and> imgs = [] \<or> map_of kvs ''images'' = Some (JList imgs)"
  shows "(py_get (JObj kvs) ''path'' (JList []) = Inr (JList nos) \<and>
          (\<forall>i<length nos. i < 5 \<longrightarrow> py_getitem (nos ! i) ''category_name'' = Inr (nomes i)) \<longrightarrow>
            (\<exists>r. flatten_item (JObj kvs) = Inr r \<and>
                 r ! 6 = (''imagem_categoria'', case imgs of [] \<Rightarrow> JStr '''' | img # resto \<Rightarrow> img) \<and>
                 map_of r ''imagem_categoria'' =
                   Some (case imgs of [] \<Rightarrow> JStr '''' | img # resto \<Rightarrow> img))) \<and>
         (\<forall>r. flatten_item (JObj kvs) = Inr r \<longrightarrow>
            r ! 6 = (''imagem_categoria'', case imgs of [] \<Rightarrow> JStr '''' | img # resto \<Rightarrow> img) \<and>
            map_of r ''imagem_categoria'' =
              Some (case imgs of [] \<Rightarrow> JStr '''' | img # resto \<Rightarrow> img))"
proof -
  from assms have i: "(case map_of kvs ''images'' of None \<Rightarrow> JList [] | Some v \<Rightarrow> v) = JList imgs"
    by auto
  then have g: "py_get (JObj kvs) ''images'' (JList []) = Inr (JList imgs)"
    by simp
  have campo: "r ! 6 = (''imagem_categoria'', case imgs of [] \<Rightarrow> JStr '''' | img # resto \<Rightarrow> img) \<and>
      map_of r ''imagem_categoria'' = Some (case imgs of [] \<Rightarrow> JStr '''' | img # resto \<Rightarrow> img)"
    if "flatten_item (JObj kvs) = Inr r" for r
    using flatten_item_campos [OF that] unfolding i primeira_imagem_lista by auto
  have existe: "\<exists>r. flatten_item (JObj kvs) = Inr r"
    if "py_get (JObj kvs) ''path'' (JList []) = Inr (JList nos)"
      and "\<forall>i<length nos. i < 5 \<longrightarrow> py_getitem (nos ! i) ''category_name'' = Inr (nomes i)"
    using flatten_item_bem_formado [OF that g] by simp
  from campo existe show ?thesis
    by blast
qed

theorem flatten_item_imagem_witness:
  "flatten_item item_sapatos = Inr registro_sapatos \<and>
   map_of registro_sapatos ''imagem_categoria'' = Some (JStr ''a.png'') \<and>
   flatten_item item_sem_id = Inr registro_casa \<and>
   map_of registro_casa ''imagem_categoria'' = Some (JStr '''') \<and>
   py_in ''images'' item_so_id = Inr False \<and>
   flatten_item item_so_id = Inr registro_so_id \<and>
   registro_so_id ! 6 = (''imagem_categoria'', JStr '''') \<and>
   map_of registro_so_id ''imagem_categoria'' = Some (JStr '''')"
  using flatten_item_imagem
    [of "[(''category_id'', JInt 100),
          (''path'', JList [JObj [(''category_id'', JInt 1), (''category_name'', JStr ''Moda'')],
                            JObj [(''category_id'', JInt 100), (''category_name'', JStr ''Sapatos'')]]),
          (''images'', JList [JStr ''a.png'', JStr ''b.png''])]"
        "[JStr ''a.png'', JStr ''b.png'']"]
    flatten_item_imagem
    [of "[(''path'', JList [JObj [(''category_name'', JStr ''Casa'')]]), (''images'', JList [])]"
        "[]"]
    flatten_item_imagem [of "[(''category_id'', JInt 5)]" "[]" "[]" "\<lambda>i. JNull"]
    flatten_sapatos flatten_sem_id flatten_so_id
  by (simp add: item_sapatos_def item_sem_id_def item_so_id_def)

text \<open>
  Claim C2. Whatever the item, a record that the Flattener returns has the seven
  canonical keys, each once, in the canonical order; and so has every record of the
  sequence that the extraction returns, whatever the environment.
\<close>

theorem registros_canonicos:
  "length colunas_esperadas = 7 \<and> distinct colunas_esperadas \<and>
   (\<forall>item r. flatten_item item = Inr r \<longrightarrow> map fst r = colunas_esperadas) \<and>
   (\<forall>r \<in> set (fst (extrair_categorias_via_api amb)). map fst r = colunas_esperadas)"
proof -
  obtain res st where t: "extrair_try amb = (res, st)"
    by (cases "extrair_try amb")
  have "canonico (estado_inicial\<lparr>logs := snd (obter_cookie_sessao (pagina_inicial amb))\<rparr>)"
    by (simp add: canonico_def estado_inicial_def)
  from this t have c: "canonico st"
    unfolding extrair_try_def by (rule extrair_corpo_canonico)
  have "\<forall>r \<in> set (fst (extrair_categorias_via_api amb)). map fst r = colunas_esperadas"
  proof (cases res)
    case (Inl e)
    with t c show ?thesis
      by (simp add: extrair_fst canonico_def)
  next
    case (Inr cats)
    with t have "cats = [] \<or> cats = todas_categorias st"
      unfolding extrair_try_def by (simp add: extrair_corpo_retorno)
    with t c Inr show ?thesis
      by (auto simp: extrair_fst canonico_def)
  qed
  then show ?thesis
    by (simp add: flatten_item_chaves) (simp add: colunas_esperadas_def)
qed

theorem registros_canonicos_witness:
  "fst (extrair_categorias_via_api (amb_com api_tres_paginas)) =
     [registro_sapatos, registro_casa, registro_sapatos] \<and>
   map fst registro_sapatos = colunas_esperadas \<and> map fst registro_casa = colunas_esperadas"
  using registros_canonicos [of "amb_com api_tres_paginas"]
  by (simp add: extrair_tres_paginas)

text \<open>
  Claim C6, amended. An item on which the Flattener raises (\<open>flatten_item item = Inl e\<close>)
  is caught on its own: wherever it stands in the list of a page, the items before it
  are processed, one error line is logged for it, no record is appended for it, and the
  loop goes on with the items after it. What the spec gives as its example is not such a
  failure: the identifier is read with a default, so it never decides whether the
  Flattener raises, and an item without \<^verbatim>\<open>category_id\<close> that is otherwise flattened
  gives a record whose \<^verbatim>\<open>id_categoria\<close> is the empty string.
\<close>

theorem item_com_falha_pulado:
  "(flatten_item item = Inl e \<longrightarrow>
      processar_itens (antes @ item # depois) st =
        processar_itens depois (logar ERROR (Erro_item e) (processar_itens antes st)) \<and>
      todas_categorias (processar_itens (antes @ item # depois) st) =
        todas_categorias st @ registros_de antes @ registros_de depois) \<and>
   (flatten_item (JObj ((''category_id'', v) # kvs)) = Inl e'
      \<longleftrightarrow> flatten_item (JObj kvs) = Inl e') \<and>
   (map_of kvs ''category_id'' = None \<longrightarrow> flatten_item (JObj kvs) = Inr r \<longrightarrow>
      map_of r ''id_categoria'' = Some (JStr ''''))"
proof -
  have a: "processar_itens (antes @ item # depois) st =
        processar_itens depois (logar ERROR (Erro_item e) (processar_itens antes st))"
    if "flatten_item item = Inl e"
    using that by (simp add: processar_itens_append)
  have b: "todas_categorias (processar_itens (antes @ item # depois) st) =
        todas_categorias st @ registros_de antes @ registros_de depois"
    if "flatten_item item = Inl e"
    unfolding a [OF that] by (simp add: processar_itens_eq)
  have c: "flatten_item (JObj ((''category_id'', v) # kvs)) = Inl e'
      \<longleftrightarrow> flatten_item (JObj kvs) = Inl e'"
    by (simp add: flatten_item_def bind_exc_def split: sum.splits)
  have d: "map_of r ''id_categoria'' = Some (JStr '''')"
    if "map_of kvs ''category_id'' = None" and "flatten_item (JObj kvs) = Inr r"
    using flatten_item_campos [OF that(2)] that(1) by auto
  from a b c d show ?thesis
    by blast
qed

theorem item_com_falha_pulado_witness:
  "flatten_item item_sem_nome = Inl KeyError \<and>
   processar_itens ([item_sapatos] @ item_sem_nome # [item_sem_id]) estado_inicial =
     \<lparr>todas_categorias = [registro_sapatos, registro_casa],
      logs = [(ERROR, Erro_item KeyError)],
      requisicoes = []\<rparr> \<and>
   flatten_item (JObj [(''path'', JList [JObj [(''category_id'', JInt 7)]])]) = Inl KeyError \<and>
   flatten_item item_sem_id = Inr registro_casa \<and>
   map_of registro_casa ''id_categoria'' = Some (JStr '''')"
  using item_com_falha_pulado
    [of item_sem_nome KeyError "[item_sapatos]" "[item_sem_id]" estado_inicial
        "JInt 7" "[(''path'', JList [JObj [(''category_id'', JInt 7)]])]" KeyError]
    item_com_falha_pulado
    [of _ _ _ _ _ _
        "[(''path'', JList [JObj [(''category_name'', JStr ''Casa'')]]), (''images'', JList [])]"
        _ registro_casa]
    flatten_sem_nome flatten_sapatos flatten_sem_id
  by (simp add: logar_def estado_inicial_def item_sem_nome_def item_sem_id_def)

text \<open>
  Claim C6 as the spec words it fails on its own example: an item with no
  \<^verbatim>\<open>category_id\<close> is not skipped, its record is appended and nothing is logged.
\<close>

theorem item_sem_id_nao_pulado:
  "py_in ''category_id'' item_sem_id = Inr False \<and>
   processar_itens [item_sem_id] estado_inicial =
     \<lparr>todas_categorias = [registro_casa], logs = [], requisicoes = []\<rparr>"
  by (simp add: flatten_sem_id estado_inicial_def) (simp add: item_sem_id_def)

subsection \<open>The Fetcher\<close>

text \<open>
  Claim C3, amended. The number of pages computed from an integer \<open>n\<close> of items is the
  ceiling of \<open>n\<close> divided by the page size 100. When the first response has the expected
  shape and declares 250 items, the number of pages is 3 and the loop is over the pages
  1, 2 and 3; the requests issued are these three, in this order, whenever the
  \<^verbatim>\<open>try\<close> block returns (no exception reaches the handler of line 170), and in every
  case they are a non-empty initial part of 1, 2, 3.
\<close>

theorem total_paginas_e_requisicoes:
  "calcular_total_paginas (JInt n) =
     Inr (JInt \<lceil>real_of_int n / real_of_int tamanho_pagina\<rceil>) \<and>
   (api_da_sessao amb 1 = Resposta 200 (Some data) \<and>
    py_getitem data ''data'' = Inr d \<and>
    py_getitem d ''global_cats'' = Inr g \<and>
    py_get d ''total'' (JInt 0) = Inr (JInt 250) \<longrightarrow>
      calcular_total_paginas (JInt 250) = Inr (JInt 3) \<and>
      paginas_a_processar (JInt 3) = Inr [1, 2, 3] \<and>
      prefix (requisicoes (snd (extrair_categorias_via_api amb))) [1, 2, 3] \<and>
      requisicoes (snd (extrair_categorias_via_api amb)) \<noteq> [] \<and>
      (\<forall>cats. fst (extrair_try amb) = Inr cats \<longrightarrow>
         requisicoes (snd (extrair_categorias_via_api amb)) = [1, 2, 3]))"
proof -
  have "calcular_total_paginas (JInt n) =
          Inr (JInt \<lceil>real_of_int n / real_of_int tamanho_pagina\<rceil>)"
    using teto_paginas [of n] by (simp add: tamanho_pagina_def)
  moreover have "paginas_a_processar (JInt 3) = Inr [1, 2, 3]"
    by (simp add: upto_1_3)
  ultimately show ?thesis
    using extrair_250 [of amb data d g] total_250 by blast
qed

theorem total_paginas_e_requisicoes_witness:
  "calcular_total_paginas (JInt 250) = Inr (JInt \<lceil>real_of_int 250 / real_of_int tamanho_pagina\<rceil>) \<and>
   api_da_sessao (amb_com api_tres_paginas) 1 =
     Resposta 200 (Some (corpo_api (JInt 250) [item_sapatos, item_sem_nome])) \<and>
   fst (extrair_try (amb_com api_tres_paginas)) =
     Inr [registro_sapatos, registro_casa, registro_sapatos] \<and>
   requisicoes (snd (extrair_categorias_via_api (amb_com api_tres_paginas))) = [1, 2, 3]"
  using total_paginas_e_requisicoes
    [of 250 "amb_com api_tres_paginas" "corpo_api (JInt 250) [item_sapatos, item_sem_nome]"
        "JObj [(''total'', JInt 250), (''global_cats'', JList [item_sapatos, item_sem_nome])]"
        "JList [item_sapatos, item_sem_nome]"]
  by (simp add: extrair_tres_paginas tentar_tres_paginas) (simp add: api_tres_paginas_def)

text \<open>
  Claim C3 as the spec words it fails when a later request raises: the first response
  declares 250 items, the request for page 2 fails at the network level, and the run
  issues the requests for pages 1 and 2 only.
\<close>

theorem pagina2_cai_duas_requisicoes:
  "api_da_sessao (amb_com api_pagina2_cai) 1 =
     Resposta 200 (Some (corpo_api (JInt 250) [item_sapatos, item_sem_nome])) \<and>
   extrair_categorias_via_api (amb_com api_pagina2_cai) =
     ([registro_sapatos],
      \<lparr>todas_categorias = [registro_sapatos],
       logs = [(INFO, Cookies_obtidos), (INFO, Total_itens (JInt 250)),
               (INFO, Total_paginas (JInt 3)), (ERROR, Erro_item KeyError),
               (ERROR, Erro_nao_tratado RequestException)],
       requisicoes = [1, 2]\<rparr>)"
  by (simp add: extrair_pagina2_cai) (simp add: api_pagina2_cai_def api_tres_paginas_def)

text \<open>
  Claim C4, amended. Let the shape test of lines 104 and 133 find the shape missing in a
  decoded body (\<open>estrutura_inesperada corpo = Inr True\<close>, as for an object without
  \<^verbatim>\<open>data\<close>, or whose \<^verbatim>\<open>data\<close> is an object without \<^verbatim>\<open>global_cats\<close>). On a page after
  the first, the error is logged, nothing is appended for the page and the loop goes on
  with the remaining pages. On the first page the error is logged and the extraction
  returns the empty sequence after this one request.
\<close>

theorem estrutura_inesperada_por_pagina:
  assumes "estrutura_inesperada corpo = Inr True"
  shows "(1 < pagina \<and> get pagina = Resposta 200 (Some corpo) \<longrightarrow>
            processar_paginas get (pagina # paginas) data st =
              processar_paginas get paginas corpo
                (logar ERROR (Estrutura_inesperada_pagina pagina) (requisitar pagina st))) \<and>
         (api_da_sessao amb 1 = Resposta 200 (Some corpo) \<longrightarrow>
            extrair_categorias_via_api amb =
              ([], \<lparr>todas_categorias = [],
                    logs = snd (obter_cookie_sessao (pagina_inicial amb)) @
                             [(ERROR, Estrutura_inesperada corpo)],
                    requisicoes = [1]\<rparr>))"
  using processar_paginas_estrutura [of pagina get corpo paginas data st]
    extrair_estrutura [of amb corpo] assms
  by blast

theorem estrutura_inesperada_por_pagina_witness:
  "estrutura_inesperada (JObj [(''data'', JObj [])]) = Inr True \<and>
   api_pagina2_sem_cats 2 = Resposta 200 (Some (JObj [(''data'', JObj [])])) \<and>
   processar_paginas api_pagina2_sem_cats [2, 3] JNull estado_inicial =
     (None,
      \<lparr>todas_categorias = [registro_sapatos],
       logs = [(ERROR, Estrutura_inesperada_pagina 2)],
       requisicoes = [2, 3]\<rparr>) \<and>
   estrutura_inesperada (JObj [(''error'', JStr ''x'')]) = Inr True \<and>
   api_da_sessao (amb_com api_pagina1_sem_data) 1 =
     Resposta 200 (Some (JObj [(''error'', JStr ''x'')])) \<and>
   fst (extrair_categorias_via_api (amb_com api_pagina1_sem_data)) = [] \<and>
   requisicoes (snd (extrair_categorias_via_api (amb_com api_pagina1_sem_data))) = [1]"
proof -
  have e1: "estrutura_inesperada (JObj [(''error'', JStr ''x'')]) = Inr True"
    by (rule estrutura_inesperada_sem_data) simp
  have p1: "api_da_sessao (amb_com api_pagina1_sem_data) 1 =
      Resposta 200 (Some (JObj [(''error'', JStr ''x'')]))"
    by (simp add: api_pagina1_sem_data_def)
  have e: "estrutura_inesperada (JObj [(''data'', JObj [])]) = Inr True"
    by (rule estrutura_inesperada_sem_cats [of _ "[]"]) simp_all
  have p: "api_pagina2_sem_cats 2 = Resposta 200 (Some (JObj [(''data'', JObj [])]))"
    by (simp add: api_pagina2_sem_cats_def)
  have "processar_paginas api_pagina2_sem_cats [3] d st =
          (None, processar_itens [item_sapatos] (requisitar 3 st))" for d st
    by (subst processar_paginas_lista_api [of 3 _ "JInt 250" "[item_sapatos]"])
       (simp_all add: api_pagina2_sem_cats_def api_tres_paginas_def)
  with e p e1 p1 show ?thesis
    using estrutura_inesperada_por_pagina [OF e, of 2 api_pagina2_sem_cats "[3]" JNull estado_inicial]
      estrutura_inesperada_por_pagina [OF e1, of _ _ _ _ _ "amb_com api_pagina1_sem_data"]
    by (simp add: processar_itens_eq paginas_concretas logar_def requisitar_def estado_inicial_def
          del: processar_paginas.simps(2))
qed

text \<open>
  Claim C4 as the spec words it fails on the first page: the body of page 1 is
  \<^verbatim>\<open>{"error": "x"}\<close>, pages 2 and 3 would answer with their items, and the run ends
  after the first request with no record.
\<close>

theorem pagina1_sem_data_aborta:
  "api_pagina1_sem_data 2 = Resposta 200 (Some (corpo_api (JInt 250) [item_sem_id])) \<and>
   extrair_categorias_via_api (amb_com api_pagina1_sem_data) =
     ([], \<lparr>todas_categorias = [],
           logs = [(INFO, Cookies_obtidos),
                   (ERROR, Estrutura_inesperada (JObj [(''error'', JStr ''x'')]))],
           requisicoes = [1]\<rparr>)"
proof -
  have "extrair_categorias_via_api (amb_com api_pagina1_sem_data) =
     ([], \<lparr>todas_categorias = [],
           logs = snd (obter_cookie_sessao (pagina_inicial (amb_com api_pagina1_sem_data))) @
                    [(ERROR, Estrutura_inesperada (JObj [(''error'', JStr ''x'')]))],
           requisicoes = [1]\<rparr>)"
    by (rule extrair_estrutura)
       (simp_all add: api_pagina1_sem_data_def estrutura_inesperada_sem_data)
  then show ?thesis
    by (simp add: obter_cookie_sessao_def amb_com_def api_pagina1_sem_data_def api_tres_paginas_def)
qed

text \<open>
  Claim C5. A status other than 200 on the first request makes the extraction return the
  empty sequence after this one request. On a later page it costs that page only: the
  error is logged and the loop goes on with the remaining pages. When the first
  response has the expected shape, with items that a loop can visit, and gives three
  pages, and page 2 is answered with a status other than 200, then whatever the answer
  for page 3 the three requests are issued, the sequence returned is made of the records
  of the items that page 1 delivers followed by those of the items that page 3 delivers,
  and \<^verbatim>\<open>main\<close> returns \<^verbatim>\<open>True\<close> as soon as one of the three writers does.
\<close>

theorem status_diferente_de_200:
  "(api_da_sessao amb 1 = Resposta s corpo \<and> s \<noteq> 200 \<longrightarrow>
      fst (extrair_categorias_via_api amb) = [] \<and>
      requisicoes (snd (extrair_categorias_via_api amb)) = [1]) \<and>
   (1 < pagina \<and> get pagina = Resposta s corpo \<and> s \<noteq> 200 \<longrightarrow>
      processar_paginas get (pagina # paginas) data st =
        processar_paginas get paginas data
          (logar ERROR (Erro_pagina_status pagina s) (requisitar pagina st))) \<and>
   (api_da_sessao amb 1 = Resposta 200 (Some data1) \<and>
    py_getitem data1 ''data'' = Inr d1 \<and>
    py_getitem d1 ''global_cats'' = Inr g1 \<and>
    py_iter g1 = Inr itens1 \<and>
    py_get d1 ''total'' (JInt 0) = Inr total_itens \<and>
    calcular_total_paginas total_itens = Inr (JInt 3) \<and>
    api_da_sessao amb 2 = Resposta s2 corpo2 \<and> s2 \<noteq> 200 \<longrightarrow>
      itens_recebidos (api_da_sessao amb 1) = itens1 \<and>
      fst (extrair_categorias_via_api amb) =
        registros_de (itens_recebidos (api_da_sessao amb 1)) @
        registros_de (itens_recebidos (api_da_sessao amb 3)) \<and>
      requisicoes (snd (extrair_categorias_via_api amb)) = [1, 2, 3] \<and>
      (salvar_csv amb (fst (extrair_categorias_via_api amb)) \<or>
       salvar_excel amb (fst (extrair_categorias_via_api amb)) \<or>
       salvar_postgres amb (fst (extrair_categorias_via_api amb)) \<longrightarrow> main amb))"
proof -
  have a: "fst (extrair_categorias_via_api amb) = [] \<and>
      requisicoes (snd (extrair_categorias_via_api amb)) = [1]"
    if "api_da_sessao amb 1 = Resposta s corpo" and "s \<noteq> 200"
    by (simp add: extrair_status [OF that])
  have b: "processar_paginas get (pagina # paginas) data st =
        processar_paginas get paginas data
          (logar ERROR (Erro_pagina_status pagina s) (requisitar pagina st))"
    if "1 < pagina" and "get pagina = Resposta s corpo" and "s \<noteq> 200"
    using that by (rule processar_paginas_status)
  have c: "itens_recebidos (api_da_sessao amb 1) = itens1 \<and>
      fst (extrair_categorias_via_api amb) =
        registros_de (itens_recebidos (api_da_sessao amb 1)) @
        registros_de (itens_recebidos (api_da_sessao amb 3)) \<and>
      requisicoes (snd (extrair_categorias_via_api amb)) = [1, 2, 3]"
    if "api_da_sessao amb 1 = Resposta 200 (Some data1)"
      and "py_getitem data1 ''data'' = Inr d1"
      and "py_getitem d1 ''global_cats'' = Inr g1"
      and "py_iter g1 = Inr itens1"
      and "py_get d1 ''total'' (JInt 0) = Inr total_itens"
      and "calcular_total_paginas total_itens = Inr (JInt 3)"
      and "api_da_sessao amb 2 = Resposta s2 corpo2" and "s2 \<noteq> 200"
    using extrair_pagina2_pulada [OF that] itens_recebidos_iter [OF that(2,3,4)]
    by (simp add: that(1))
  have d: "main amb"
    if "salvar_csv amb (fst (extrair_categorias_via_api amb)) \<or>
        salvar_excel amb (fst (extrair_categorias_via_api amb)) \<or>
        salvar_postgres amb (fst (extrair_categorias_via_api amb))"
    using that by (rule main_se_salvou)
  from a b c d show ?thesis
    by blast
qed

theorem status_diferente_de_200_witness:
  "api_da_sessao (amb_com api_pagina2_500) 2 = Resposta 500 None \<and>
   itens_recebidos (api_da_sessao (amb_com api_pagina2_500) 1) = [item_sapatos, item_sem_nome] \<and>
   itens_recebidos (api_da_sessao (amb_com api_pagina2_500) 3) = [item_sapatos] \<and>
   fst (extrair_categorias_via_api (amb_com api_pagina2_500)) =
     [registro_sapatos, registro_sapatos] \<and>
   requisicoes (snd (extrair_categorias_via_api (amb_com api_pagina2_500))) = [1, 2, 3] \<and>
   salvar_csv (amb_com api_pagina2_500) [registro_sapatos, registro_sapatos] \<and>
   main (amb_com api_pagina2_500) \<and>
   processar_paginas api_pagina2_500 [2] JNull estado_inicial =
     (None, \<lparr>todas_categorias = [], logs = [(ERROR, Erro_pagina_status 2 500)],
             requisicoes = [2]\<rparr>) \<and>
   api_da_sessao (amb_com api_pagina1_503) 1 = Resposta 503 None \<and>
   fst (extrair_categorias_via_api (amb_com api_pagina1_503)) = [] \<and>
   requisicoes (snd (extrair_categorias_via_api (amb_com api_pagina1_503))) = [1]"
  using status_diferente_de_200 [of "amb_com api_pagina1_503" 503 None]
    status_diferente_de_200
    [of "amb_com api_pagina2_500" 500 None 2 api_pagina2_500 "[]" JNull estado_inicial
        "corpo_api (JInt 250) [item_sapatos, item_sem_nome]"
        "JObj [(''total'', JInt 250), (''global_cats'', JList [item_sapatos, item_sem_nome])]"
        "JList [item_sapatos, item_sem_nome]"
        "[item_sapatos, item_sem_nome]" "JInt 250" 500 None]
  by (simp add: api_pagina2_500_def api_pagina1_503_def api_tres_paginas_def tamanho_pagina_def
        paginas_concretas salvar_csv_amb_com logar_def requisitar_def estado_inicial_def
        del: processar_paginas.simps(2))

text \<open>
  Claim C10. When the first request is answered with status 200 and a body of the
  expected shape whose \<^verbatim>\<open>total\<close> is absent or 0, the number of pages is 0, the loop over
  the pages has no turn, and the extraction returns the empty sequence after this one
  request, whatever items \<^verbatim>\<open>global_cats\<close> holds.
\<close>

theorem sem_total_nada_extraido:
  assumes "api_da_sessao amb 1 = Resposta 200 (Some data)"
    and "py_getitem data ''data'' = Inr d"
    and "py_getitem d ''global_cats'' = Inr g"
    and "py_get d ''total'' (JInt 0) = Inr (JInt 0)"
  shows "calcular_total_paginas (JInt 0) = Inr (JInt 0) \<and>
         paginas_a_processar (JInt 0) = Inr [] \<and>
         extrair_categorias_via_api amb =
           ([], \<lparr>todas_categorias = [],
                 logs = snd (obter_cookie_sessao (pagina_inicial amb)) @
                          [(INFO, Total_itens (JInt 0)), (INFO, Total_paginas (JInt 0)),
                           (INFO, Total_extraidas 0)],
                 requisicoes = [1]\<rparr>)"
proof -
  have z: "calcular_total_paginas (JInt 0) = Inr (JInt 0)"
    by (simp add: tamanho_pagina_def)
  from extrair_sem_paginas [OF assms z] z show ?thesis
    by simp
qed

theorem sem_total_nada_extraido_witness:
  "api_da_sessao (amb_com api_sem_total) 1 =
     Resposta 200 (Some (JObj [(''data'', JObj [(''global_cats'', JList [item_sapatos])])])) \<and>
   flatten_item item_sapatos = Inr registro_sapatos \<and>
   fst (extrair_categorias_via_api (amb_com api_sem_total)) = [] \<and>
   requisicoes (snd (extrair_categorias_via_api (amb_com api_sem_total))) = [1]"
  using sem_total_nada_extraido
    [of "amb_com api_sem_total"
        "JObj [(''data'', JObj [(''global_cats'', JList [item_sapatos])])]"
        "JObj [(''global_cats'', JList [item_sapatos])]"
        "JList [item_sapatos]"]
  by (simp add: api_sem_total_def flatten_sapatos)

subsection \<open>The writers and the run\<close>

text \<open>
  Claim C8. Called with the empty sequence, each of the three writers returns
  \<^verbatim>\<open>False\<close>, and it is its \<^verbatim>\<open>try\<close> block that returns it: no exception is raised.
\<close>

theorem salvar_sem_registros:
  "salvar_csv_corpo amb [] = Inr False \<and> salvar_csv amb [] = False \<and>
   salvar_excel_corpo amb [] = Inr False \<and> salvar_excel amb [] = False \<and>
   salvar_postgres_corpo amb [] = Inr False \<and> salvar_postgres amb [] = False"
  by (simp add: salvar_csv_corpo_def salvar_csv_def salvar_excel_corpo_def salvar_excel_def
        salvar_postgres_corpo_def salvar_postgres_def)

text \<open>
  Claim C9. \<^verbatim>\<open>main\<close> returns \<^verbatim>\<open>True\<close> exactly when the extraction returned at least one
  record and at least one of the three writers, called with the records, returned
  \<^verbatim>\<open>True\<close>; it returns \<^verbatim>\<open>False\<close> exactly when the extraction returned no record or all
  three writers returned \<^verbatim>\<open>False\<close>.
\<close>

theorem main_sucesso:
  "main amb =
     (fst (extrair_categorias_via_api amb) \<noteq> [] \<and>
      (salvar_csv amb (fst (extrair_categorias_via_api amb)) \<or>
       salvar_excel amb (fst (extrair_categorias_via_api amb)) \<or>
       salvar_postgres amb (fst (extrair_categorias_via_api amb)))) \<and>
   (\<not> main amb) =
     (fst (extrair_categorias_via_api amb) = [] \<or>
      (\<not> salvar_csv amb (fst (extrair_categorias_via_api amb)) \<and>
       \<not> salvar_excel amb (fst (extrair_categorias_via_api amb)) \<and>
       \<not> salvar_postgres amb (fst (extrair_categorias_via_api amb))))"
proof -
  have "main amb =
     (fst (extrair_categorias_via_api amb) \<noteq> [] \<and>
      (salvar_csv amb (fst (extrair_categorias_via_api amb)) \<or>
       salvar_excel amb (fst (extrair_categorias_via_api amb)) \<or>
       salvar_postgres amb (fst (extrair_categorias_via_api amb))))"
    by (simp add: main_def Let_def)
  then show ?thesis
    by blast
qed

theorem main_sucesso_witness:
  "main (amb_com api_tres_paginas) \<and>
   salvar_csv (amb_com api_tres_paginas) [registro_sapatos, registro_casa, registro_sapatos] \<and>
   \<not> salvar_excel (amb_com api_tres_paginas) [registro_sapatos, registro_casa, registro_sapatos] \<and>
   \<not> main (amb_com api_pagina1_sem_data)"
  using main_sucesso [of "amb_com api_tres_paginas"] main_sucesso [of "amb_com api_pagina1_sem_data"]
    extrair_estrutura [of "amb_com api_pagina1_sem_data" "JObj [(''error'', JStr ''x'')]"]
  by (simp add: extrair_tres_paginas salvar_csv_amb_com salvar_excel_amb_com
        salvar_postgres_amb_com api_pagina1_sem_data_def estrutura_inesperada_sem_data)

end
